theory Spec2Isabelle
  imports Complex_Main "HOL-Library.Product_Lexorder"
begin

section \<open>The persistent store\<close>

text \<open>
  The tables the collector (scripts/collectGymHistory.js) and the query layer
  (src/server/gymData.ts) share.  \<open>gym\<close> is the scanner's table and is only read;
  \<open>gym_history\<close> and \<open>gym_team_changes\<close> are the tables of
  scripts/gym_history_schema.sql.  Unsigned integer columns are \<open>nat\<close>, nullable columns
  are \<open>option\<close>, and a table is the list of its rows in insertion order (the
  auto-increment \<open>id\<close> is the position).  \<open>gym.id\<close> is the key of the gym table (the
  foreign key of gym_team_changes refers to it); theorems that need it say so by
  \<open>distinct (map g_id (gym db))\<close>.  The geofence polygons are an oracle:
  \<open>geofence db fence lon lat\<close> is the value of
  \<open>ST_CONTAINS(ST_GeomFromGeoJSON((SELECT geometry FROM geofence WHERE id = fence)), POINT(lon, lat))\<close>.
\<close>

record gym_row =
  g_id :: string
  g_name :: string
  g_team_id :: "nat option"
  g_lat :: rat
  g_lon :: rat
  g_url :: string
  g_description :: "string option"
  g_available_slots :: "nat option"
  g_availble_slots :: "nat option"
  g_guarding_pokemon_id :: "nat option"
  g_updated :: nat
  g_defenders :: "string option"
  g_total_cp :: "nat option"
  g_enabled :: nat

record history_row =
  timestamp :: nat
  team_mystic :: nat
  team_valor :: nat
  team_instinct :: nat
  total_gyms :: nat

record change_row =
  gym_id :: string
  old_team_id :: "nat option"
  new_team_id :: "nat option"
  changed_at :: nat

record database =
  gym :: "gym_row list"
  geofence :: "string \<Rightarrow> rat \<Rightarrow> rat \<Rightarrow> bool"
  gym_history :: "history_row list"
  gym_team_changes :: "change_row list"

definition in_geofence :: "database \<Rightarrow> string \<Rightarrow> gym_row \<Rightarrow> bool" where
  "in_geofence db fence g = geofence db fence (g_lon g) (g_lat g)"

text \<open>
  \<open>WHERE col >= UNIX_TIMESTAMP() - ?\<close> and \<open>WHERE col < UNIX_TIMESTAMP() - ?\<close>: the
  subtraction is signed, so it is written over \<open>int\<close>.
\<close>

definition older_than :: "nat \<Rightarrow> int \<Rightarrow> nat \<Rightarrow> bool" where
  "older_than now seconds t = (int t < int now - seconds)"

definition in_window :: "nat \<Rightarrow> int \<Rightarrow> nat \<Rightarrow> bool" where
  "in_window now seconds t = (int now - seconds \<le> int t)"

section \<open>Statements, failures and the connection\<close>

text \<open>
  Every call on the connection or the pool can reject.  Which ones do is an input of the
  model: \<open>F s\<close> says that statement \<open>s\<close> fails.  An insert into gym_team_changes is named
  with the gym it is for.
\<close>

datatype stmt =
    GetConnection | BeginTransaction | CountQuery | InsertHistory
  | CurrentQuery | LastStateQuery | InsertChange string
  | DeleteHistory | DeleteChanges | Commit | Rollback | PoolEnd
  | SnapshotQuery | HistoryQuery | LatestQuery | ContestedQuery | RecentQuery
  | DefenderQuery

datatype error = ConfigError string | StoreError stmt | TypeError

type_synonym faults = "stmt \<Rightarrow> bool"

text \<open>
  A connection holds what the server has committed and the working copy this
  connection sees.  Outside a transaction a write is committed at once (autocommit);
  inside, only \<open>commit\<close> publishes the working copy and \<open>rollback\<close> discards it.
\<close>

record conn =
  committed :: database
  working :: database
  in_tx :: bool

definition getConnection :: "database \<Rightarrow> conn" where
  "getConnection db = \<lparr>committed = db, working = db, in_tx = False\<rparr>"

definition beginTransaction :: "faults \<Rightarrow> conn \<Rightarrow> (error + unit) \<times> conn" where
  "beginTransaction F c =
     (if F BeginTransaction then (Inl (StoreError BeginTransaction), c)
      else (Inr (), c\<lparr>in_tx := True\<rparr>))"

definition conn_query :: "faults \<Rightarrow> stmt \<Rightarrow> (database \<Rightarrow> 'a) \<Rightarrow> conn \<Rightarrow> error + 'a" where
  "conn_query F s q c = (if F s then Inl (StoreError s) else Inr (q (working c)))"

definition conn_execute ::
  "faults \<Rightarrow> stmt \<Rightarrow> (database \<Rightarrow> database) \<Rightarrow> conn \<Rightarrow> (error + unit) \<times> conn" where
  "conn_execute F s w c =
     (if F s then (Inl (StoreError s), c)
      else if in_tx c then (Inr (), c\<lparr>working := w (working c)\<rparr>)
      else (Inr (), c\<lparr>committed := w (working c), working := w (working c)\<rparr>))"

definition commit :: "faults \<Rightarrow> conn \<Rightarrow> (error + unit) \<times> conn" where
  "commit F c =
     (if F Commit then (Inl (StoreError Commit), c)
      else (Inr (), c\<lparr>committed := working c, in_tx := False\<rparr>))"

definition rollback :: "conn \<Rightarrow> conn" where
  "rollback c = c\<lparr>working := committed c, in_tx := False\<rparr>"

section \<open>Configuration\<close>

text \<open>
  \<open>process.env\<close>: a variable is unset (\<open>None\<close>) or a string.  The two numeric
  variables are held as the number \<open>Number(...)\<close> and \<open>parseInt(...)\<close> read from them.
\<close>

record env =
  DB_HOST :: "string option"
  DB_USER :: "string option"
  DB_PASS :: "string option"
  DB_NAME :: "string option"
  GEOFENCE_DB_NAME :: "string option"
  GEOFENCE_ID :: "string option"
  GYM_HISTORY_RETENTION_DAYS :: "rat option"
  GYM_TIME_WINDOW :: "int option"

definition word_char :: "char \<Rightarrow> bool" where
  "word_char ch =
     (ch \<in> set ''abcdefghijklmnopqrstuvwxyzABCDEFGHIJKLMNOPQRSTUVWXYZ0123456789_'')"

text \<open>\<open>ensure\<close> and \<open>ensureIdentifier\<close> of the collector script.\<close>

definition ensure :: "string option \<Rightarrow> string \<Rightarrow> error + string" where
  "ensure v name =
     (case v of None \<Rightarrow> Inl (ConfigError name)
      | Some s \<Rightarrow> if s = [] then Inl (ConfigError name) else Inr s)"

definition ensureIdentifier_collector :: "string option \<Rightarrow> string \<Rightarrow> error + string" where
  "ensureIdentifier_collector v name =
     (case ensure v name of Inl e \<Rightarrow> Inl e
      | Inr identifier \<Rightarrow>
          if \<not> list_all word_char identifier then Inl (ConfigError name) else Inr identifier)"

section \<open>The collector: scripts/collectGymHistory.js\<close>

subsection \<open>trackTeamChanges\<close>

definition current_gyms_query :: "string \<Rightarrow> database \<Rightarrow> (string \<times> nat option) list" where
  "current_gyms_query geofenceId db =
     map (\<lambda>g. (g_id g, g_team_id g))
       (filter (\<lambda>g. g_enabled g = 1 \<and> in_geofence db geofenceId g) (gym db))"

definition sql_MAX :: "nat list \<Rightarrow> nat option" where
  "sql_MAX xs = (case xs of [] \<Rightarrow> None | x # ys \<Rightarrow> Some (fold max ys x))"

text \<open>
  The join of gym_team_changes with its per-gym \<open>MAX(changed_at)\<close>.  The query has no
  ORDER BY; rows come in table order.
\<close>

definition latest_changed :: "change_row list \<Rightarrow> (string \<times> nat option) list" where
  "latest_changed tbl =
     map (\<lambda>g. (g, sql_MAX (map changed_at (filter (\<lambda>r. gym_id r = g) tbl))))
       (remdups (map gym_id tbl))"

definition last_state_query :: "database \<Rightarrow> (string \<times> nat option) list" where
  "last_state_query db =
     (let tbl = gym_team_changes db; latest = latest_changed tbl
      in concat (map (\<lambda>gtc.
            map (\<lambda>l. (gym_id gtc, new_team_id gtc))
              (filter (\<lambda>l. fst l = gym_id gtc \<and> snd l = Some (changed_at gtc)) latest))
          tbl))"

definition lastStateMap_of :: "(string \<times> nat option) list \<Rightarrow> (string \<rightharpoonup> nat option)" where
  "lastStateMap_of lastStateRows = fold (\<lambda>row m. m(fst row \<mapsto> snd row)) lastStateRows Map.empty"

definition insert_change :: "change_row \<Rightarrow> database \<Rightarrow> database" where
  "insert_change r db = db\<lparr>gym_team_changes := gym_team_changes db @ [r]\<rparr>"

text \<open>
  The loop over \<open>currentRows\<close>.  \<open>lastTeam === undefined\<close> is \<open>m gid = None\<close>; a stored
  NULL owner is \<open>Some None\<close>.
\<close>

fun track_loop ::
  "faults \<Rightarrow> nat \<Rightarrow> (string \<times> nat option) list \<Rightarrow> (string \<rightharpoonup> nat option) \<Rightarrow> conn
     \<Rightarrow> (error + unit) \<times> conn" where
  "track_loop F ts [] lastStateMap c = (Inr (), c)"
| "track_loop F ts (row # rows) lastStateMap c =
     (let currentTeam = snd row in
      case lastStateMap (fst row) of
        None \<Rightarrow>
          (case conn_execute F (InsertChange (fst row))
                  (insert_change \<lparr>gym_id = fst row, old_team_id = None,
                                  new_team_id = currentTeam, changed_at = ts\<rparr>) c of
             (Inl e, c') \<Rightarrow> (Inl e, c')
           | (Inr u, c') \<Rightarrow> track_loop F ts rows (lastStateMap(fst row \<mapsto> currentTeam)) c')
      | Some lastTeam \<Rightarrow>
          if lastTeam \<noteq> currentTeam then
            (case conn_execute F (InsertChange (fst row))
                    (insert_change \<lparr>gym_id = fst row, old_team_id = lastTeam,
                                    new_team_id = currentTeam, changed_at = ts\<rparr>) c of
               (Inl e, c') \<Rightarrow> (Inl e, c')
             | (Inr u, c') \<Rightarrow> track_loop F ts rows (lastStateMap(fst row \<mapsto> currentTeam)) c')
          else track_loop F ts rows lastStateMap c)"

definition trackTeamChanges :: "faults \<Rightarrow> string \<Rightarrow> nat \<Rightarrow> conn \<Rightarrow> (error + unit) \<times> conn" where
  "trackTeamChanges F geofenceId ts c =
     (case conn_query F CurrentQuery (current_gyms_query geofenceId) c of
        Inl e \<Rightarrow> (Inl e, c)
      | Inr currentRows \<Rightarrow>
          (case conn_query F LastStateQuery last_state_query c of
             Inl e \<Rightarrow> (Inl e, c)
           | Inr lastStateRows \<Rightarrow>
               track_loop F ts currentRows (lastStateMap_of lastStateRows) c))"

subsection \<open>collectGymHistory\<close>

record counts_row =
  cr_mystic :: "nat option"
  cr_valor :: "nat option"
  cr_instinct :: "nat option"
  cr_total :: nat

definition sql_SUM :: "nat list \<Rightarrow> nat option" where
  "sql_SUM xs = (if xs = [] then None else Some (sum_list xs))"

definition count_query :: "string \<Rightarrow> database \<Rightarrow> counts_row" where
  "count_query geofenceId db =
     (let rows = filter (\<lambda>g. g_enabled g = 1 \<and> in_geofence db geofenceId g) (gym db)
      in \<lparr>cr_mystic = sql_SUM (map (\<lambda>g. if g_team_id g = Some 1 then 1 else 0) rows),
          cr_valor = sql_SUM (map (\<lambda>g. if g_team_id g = Some 2 then 1 else 0) rows),
          cr_instinct = sql_SUM (map (\<lambda>g. if g_team_id g = Some 3 then 1 else 0) rows),
          cr_total = length rows\<rparr>)"

definition or_zero :: "nat option \<Rightarrow> nat" where
  "or_zero v = (case v of None \<Rightarrow> 0 | Some n \<Rightarrow> n)"

definition insert_history :: "history_row \<Rightarrow> database \<Rightarrow> database" where
  "insert_history r db = db\<lparr>gym_history := gym_history db @ [r]\<rparr>"

definition delete_history :: "nat \<Rightarrow> int \<Rightarrow> database \<Rightarrow> database" where
  "delete_history now retentionSeconds db =
     db\<lparr>gym_history :=
          filter (\<lambda>r. \<not> older_than now retentionSeconds (timestamp r)) (gym_history db)\<rparr>"

definition delete_changes :: "nat \<Rightarrow> int \<Rightarrow> database \<Rightarrow> database" where
  "delete_changes now retentionSeconds db =
     db\<lparr>gym_team_changes :=
          filter (\<lambda>r. \<not> older_than now retentionSeconds (changed_at r)) (gym_team_changes db)\<rparr>"

definition retentionSeconds_of :: "env \<Rightarrow> int" where
  "retentionSeconds_of e =
     (let retentionDays = (case GYM_HISTORY_RETENTION_DAYS e of None \<Rightarrow> 7 | Some d \<Rightarrow> d)
      in max \<lfloor>retentionDays * 24 * 60 * 60\<rfloor> 1)"

text \<open>
  The body of the \<open>try\<close> block.  \<open>now\<close> is the second in which the run happens: the
  value of \<open>UNIX_TIMESTAMP()\<close> in the three statements and of
  \<open>Math.floor(Date.now() / 1000)\<close> in trackTeamChanges.
\<close>

definition collect_body ::
  "faults \<Rightarrow> string \<Rightarrow> int \<Rightarrow> nat \<Rightarrow> conn \<Rightarrow> (error + unit) \<times> conn" where
  "collect_body F geofenceId retentionSeconds now c0 =
     (case beginTransaction F c0 of
        (Inl e, c) \<Rightarrow> (Inl e, c)
      | (Inr u, c1) \<Rightarrow>
     (case conn_query F CountQuery (count_query geofenceId) c1 of
        Inl e \<Rightarrow> (Inl e, c1)
      | Inr countsRow \<Rightarrow>
     (let mysticCount = or_zero (cr_mystic countsRow);
          valorCount = or_zero (cr_valor countsRow);
          instinctCount = or_zero (cr_instinct countsRow);
          totalCount = cr_total countsRow
      in
     (case conn_execute F InsertHistory
             (insert_history \<lparr>timestamp = now, team_mystic = mysticCount,
                team_valor = valorCount, team_instinct = instinctCount,
                total_gyms = totalCount\<rparr>) c1 of
        (Inl e, c) \<Rightarrow> (Inl e, c)
      | (Inr u, c2) \<Rightarrow>
     (case trackTeamChanges F geofenceId now c2 of
        (Inl e, c) \<Rightarrow> (Inl e, c)
      | (Inr u, c3) \<Rightarrow>
     (case conn_execute F DeleteHistory (delete_history now retentionSeconds) c3 of
        (Inl e, c) \<Rightarrow> (Inl e, c)
      | (Inr u, c4) \<Rightarrow>
     (case conn_execute F DeleteChanges (delete_changes now retentionSeconds) c4 of
        (Inl e, c) \<Rightarrow> (Inl e, c)
      | (Inr u, c5) \<Rightarrow> commit F c5)))))))"

text \<open>
  The configuration read at the top of \<open>collectGymHistory\<close>: each \<open>ensure\<close> throws
  before a connection is opened.  Only the geofence id reaches the queries of this model
  (the schema names select the tables).
\<close>

definition collector_config :: "env \<Rightarrow> error + string" where
  "collector_config e =
     (case ensure (DB_HOST e) ''DB_HOST'' of Inl err \<Rightarrow> Inl err | Inr dbHost \<Rightarrow>
      case ensure (DB_USER e) ''DB_USER'' of Inl err \<Rightarrow> Inl err | Inr dbUser \<Rightarrow>
      case ensure (DB_PASS e) ''DB_PASS'' of Inl err \<Rightarrow> Inl err | Inr dbPass \<Rightarrow>
      case ensureIdentifier_collector (DB_NAME e) ''DB_NAME'' of Inl err \<Rightarrow> Inl err | Inr dbName \<Rightarrow>
      case ensureIdentifier_collector (GEOFENCE_DB_NAME e) ''GEOFENCE_DB_NAME'' of
        Inl err \<Rightarrow> Inl err | Inr geofenceDbName \<Rightarrow>
      ensure (GEOFENCE_ID e) ''GEOFENCE_ID'')"

text \<open>
  The whole invocation: configuration, the connection, the \<open>try\<close> block, the \<open>catch\<close>
  that rolls back and rethrows, and the \<open>finally\<close> that releases the connection and ends
  the pool.  The result is what the promise settles to and the store the server holds
  afterwards.  A rollback that fails rejects with its own error; the transaction is then
  discarded when the connection is closed.  An error of \<open>pool.end()\<close> replaces the
  outcome of the \<open>try\<close> and \<open>catch\<close> blocks.
\<close>

definition collectGymHistory ::
  "env \<Rightarrow> faults \<Rightarrow> nat \<Rightarrow> database \<Rightarrow> (error + unit) \<times> database" where
  "collectGymHistory e F now db =
     (case collector_config e of
        Inl err \<Rightarrow> (Inl err, db)
      | Inr geofenceId \<Rightarrow>
          if F GetConnection then (Inl (StoreError GetConnection), db)
          else
            (let settled =
               (case collect_body F geofenceId (retentionSeconds_of e) now (getConnection db) of
                  (Inr u, c) \<Rightarrow> (Inr (), committed c)
                | (Inl err, c) \<Rightarrow>
                    if F Rollback then (Inl (StoreError Rollback), committed (rollback c))
                    else (Inl err, committed (rollback c)))
             in if F PoolEnd then (Inl (StoreError PoolEnd), snd settled) else settled))"

text \<open>The exit status of the script: \<open>process.exit(0)\<close> on resolve, \<open>process.exit(1)\<close> on reject.\<close>

definition exit_status :: "(error + unit) \<Rightarrow> nat" where
  "exit_status r = (case r of Inr u \<Rightarrow> 0 | Inl e \<Rightarrow> 1)"

section \<open>The query layer: src/server/gymData.ts\<close>

subsection \<open>Values of the host language\<close>

text \<open>
  What \<open>JSON.parse\<close> returns.  Numbers are rationals (no NaN or infinity comes out of
  JSON text this model reads); an object is the list of its members.
\<close>

datatype json =
    JNull | JBool bool | JNum rat | JStr string | JArr "json list" | JObj "(string \<times> json) list"

text \<open>
  Functions of the runtime and of \<open>@/lib/pogoNames\<close> (not part of the sources at hand)
  that the code calls: they are parameters.  \<open>JSON_parse s = None\<close> is a SyntaxError;
  \<open>js_Number s = None\<close> is a result that is not finite.
\<close>

record js_lib =
  JSON_parse :: "string \<Rightarrow> json option"
  js_String :: "json \<Rightarrow> string"
  js_Number :: "string \<Rightarrow> rat option"
  getPokemonName :: "json \<Rightarrow> string"
  TEAM_NAMES :: "nat \<Rightarrow> string option"

text \<open>\<open>Math.round\<close>: the nearest integer, a half rounded up.\<close>

definition Math_round :: "rat \<Rightarrow> int" where
  "Math_round x = \<lfloor>x + 1 / 2\<rfloor>"

text \<open>A property read off a parsed value: \<open>Inl TypeError\<close> on null, \<open>None\<close> for undefined.\<close>

definition js_get :: "json \<Rightarrow> string \<Rightarrow> error + json option" where
  "js_get v key =
     (case v of JNull \<Rightarrow> Inl TypeError
      | JObj members \<Rightarrow> Inr (map_of members key)
      | _ \<Rightarrow> Inr None)"

definition truthy :: "json option \<Rightarrow> bool" where
  "truthy v =
     (case v of None \<Rightarrow> False
      | Some JNull \<Rightarrow> False
      | Some (JBool b) \<Rightarrow> b
      | Some (JNum n) \<Rightarrow> n \<noteq> 0
      | Some (JStr s) \<Rightarrow> s \<noteq> []
      | Some _ \<Rightarrow> True)"

text \<open>The lines written with \<open>console.warn\<close> and \<open>console.error\<close>, by the place that writes them.\<close>

datatype log =
    SnapshotConfigError | SnapshotParseWarning string | SnapshotFetchError
  | HistoryConfigError | HistoryFetchError
  | StatsConfigError | StatsParseWarning | StatsShapeWarning | StatsFetchError

definition pool_execute :: "faults \<Rightarrow> stmt \<Rightarrow> (database \<Rightarrow> 'a) \<Rightarrow> database \<Rightarrow> error + 'a" where
  "pool_execute F s q db = (if F s then Inl (StoreError s) else Inr (q db))"

text \<open>\<open>ensureIdentifier\<close> of gymData.ts.\<close>

definition ensureIdentifier :: "string option \<Rightarrow> string \<Rightarrow> error + string" where
  "ensureIdentifier v label =
     (case v of None \<Rightarrow> Inl (ConfigError label)
      | Some s \<Rightarrow>
          if s = [] then Inl (ConfigError label)
          else if \<not> list_all word_char s then Inl (ConfigError label)
          else Inr s)"

subsection \<open>Periods and chart data\<close>

datatype PeriodKey = P6h | P12h | P24h | P48h | P7d

record PeriodConfig =
  duration :: nat
  bucket :: nat

fun PERIOD_CONFIG :: "PeriodKey \<Rightarrow> PeriodConfig" where
  "PERIOD_CONFIG P6h = \<lparr>duration = 6 * 60 * 60, bucket = 5 * 60\<rparr>"
| "PERIOD_CONFIG P12h = \<lparr>duration = 12 * 60 * 60, bucket = 5 * 60\<rparr>"
| "PERIOD_CONFIG P24h = \<lparr>duration = 24 * 60 * 60, bucket = 5 * 60\<rparr>"
| "PERIOD_CONFIG P48h = \<lparr>duration = 48 * 60 * 60, bucket = 15 * 60\<rparr>"
| "PERIOD_CONFIG P7d = \<lparr>duration = 7 * 24 * 60 * 60, bucket = 60 * 60\<rparr>"

definition period_key :: "string \<Rightarrow> PeriodKey" where
  "period_key period =
     (if period = ''6h'' then P6h else if period = ''12h'' then P12h
      else if period = ''24h'' then P24h else if period = ''48h'' then P48h
      else if period = ''7d'' then P7d else P24h)"

record HistoryRow =
  hr_bucket :: nat
  hr_mystic :: "rat option"
  hr_valor :: "rat option"
  hr_instinct :: "rat option"
  hr_total :: "rat option"

record ChartDataPoint =
  cd_time :: int
  cd_mystic :: int
  cd_valor :: int
  cd_instinct :: int
  cd_total :: int

definition rat_or_zero :: "rat option \<Rightarrow> rat" where
  "rat_or_zero v = (case v of None \<Rightarrow> 0 | Some x \<Rightarrow> x)"

definition buildChartData :: "HistoryRow list \<Rightarrow> ChartDataPoint list" where
  "buildChartData rows =
     map (\<lambda>row.
        let mystic = Math_round (rat_or_zero (hr_mystic row));
            valor = Math_round (rat_or_zero (hr_valor row));
            instinct = Math_round (rat_or_zero (hr_instinct row));
            recordedTotal = Math_round (rat_or_zero (hr_total row));
            controlledSum = mystic + valor + instinct;
            total = max recordedTotal controlledSum
        in \<lparr>cd_time = int (hr_bucket row) * 1000, cd_mystic = mystic, cd_valor = valor,
            cd_instinct = instinct, cd_total = total\<rparr>) rows"

text \<open>
  \<open>AVG\<close> over a group: NULL for no rows, else the arithmetic mean.  (The server returns
  the mean as a decimal of four fractional digits; after \<open>Math.round\<close> the two differ
  only for a group of ten thousand rows or more.)
\<close>

definition sql_AVG :: "nat list \<Rightarrow> rat option" where
  "sql_AVG xs = (if xs = [] then None else Some (of_nat (sum_list xs) / of_nat (length xs)))"

definition bucket_start :: "nat \<Rightarrow> nat \<Rightarrow> nat" where
  "bucket_start b t = (t div b) * b"

text \<open>
  The history query: rows of the window, grouped by \<open>FLOOR(timestamp / ?) * ?\<close> (the
  integer quotient times the bucket width), one result row per group,
  \<open>ORDER BY bucket ASC\<close>.
\<close>

definition history_query :: "nat \<Rightarrow> nat \<Rightarrow> nat \<Rightarrow> database \<Rightarrow> HistoryRow list" where
  "history_query now b d db =
     (let sel = filter (\<lambda>r. in_window now (int d) (timestamp r)) (gym_history db)
      in map (\<lambda>k.
            let grp = filter (\<lambda>r. bucket_start b (timestamp r) = k) sel
            in \<lparr>hr_bucket = k, hr_mystic = sql_AVG (map team_mystic grp),
                hr_valor = sql_AVG (map team_valor grp),
                hr_instinct = sql_AVG (map team_instinct grp),
                hr_total = sql_AVG (map total_gyms grp)\<rparr>)
          (sort (remdups (map (\<lambda>r. bucket_start b (timestamp r)) sel))))"

text \<open>\<open>ORDER BY timestamp DESC LIMIT 1\<close>; rows of one second stay in table order.\<close>

definition latest_query :: "database \<Rightarrow> history_row list" where
  "latest_query db = take 1 (sort_key (\<lambda>r. - int (timestamp r)) (gym_history db))"

record CurrentCounts =
  cc_mystic :: int
  cc_valor :: int
  cc_instinct :: int
  cc_total :: int

definition currentCounts_of :: "history_row list \<Rightarrow> CurrentCounts" where
  "currentCounts_of latestRows =
     (case latestRows of
        [] \<Rightarrow> \<lparr>cc_mystic = 0, cc_valor = 0, cc_instinct = 0, cc_total = 0\<rparr>
      | latest # rest \<Rightarrow>
          (let mystic = Math_round (of_nat (team_mystic latest));
               valor = Math_round (of_nat (team_valor latest));
               instinct = Math_round (of_nat (team_instinct latest));
               recordedTotal = Math_round (of_nat (total_gyms latest));
               controlledSum = mystic + valor + instinct
           in \<lparr>cc_mystic = mystic, cc_valor = valor, cc_instinct = instinct,
               cc_total = max recordedTotal controlledSum\<rparr>))"

text \<open>
  \<open>lastUpdated\<close> is held as the time value (milliseconds) of the \<open>Date\<close> whose ISO string
  the response carries; \<open>new Date(0)\<close> is 0.
\<close>

definition lastUpdated_of :: "history_row list \<Rightarrow> int" where
  "lastUpdated_of latestRows =
     (case latestRows of [] \<Rightarrow> 0 | latest # rest \<Rightarrow> int (timestamp latest) * 1000)"

subsection \<open>Contested gyms\<close>

record ContestedRow =
  ct_gym_id :: string
  ct_name :: string
  ct_lat :: rat
  ct_lon :: rat
  ct_url :: string
  ct_current_team :: "nat option"
  ct_change_count :: nat
  ct_last_changed :: nat

text \<open>
  The join of gym_team_changes with gym inside the window and the fence, grouped by
  \<open>gtc.gym_id, g.name, g.lat, g.lon, g.url, g.team_id\<close>, ordered by
  \<open>change_count DESC, last_changed DESC\<close>, \<open>LIMIT 20\<close>.
\<close>

definition contested_join :: "nat \<Rightarrow> nat \<Rightarrow> string \<Rightarrow> database \<Rightarrow> (change_row \<times> gym_row) list" where
  "contested_join now d geofenceId db =
     concat (map (\<lambda>gtc.
        map (\<lambda>g. (gtc, g))
          (filter (\<lambda>g. gym_id gtc = g_id g \<and> in_geofence db geofenceId g) (gym db)))
       (filter (\<lambda>gtc. in_window now (int d) (changed_at gtc)) (gym_team_changes db)))"

definition group_key ::
  "change_row \<times> gym_row \<Rightarrow> string \<times> string \<times> rat \<times> rat \<times> string \<times> nat option" where
  "group_key p = (gym_id (fst p), g_name (snd p), g_lat (snd p), g_lon (snd p), g_url (snd p),
                  g_team_id (snd p))"

definition contested_groups :: "nat \<Rightarrow> nat \<Rightarrow> string \<Rightarrow> database \<Rightarrow> ContestedRow list" where
  "contested_groups now d geofenceId db =
     (let joined = contested_join now d geofenceId db
      in map (\<lambda>k.
            let grp = filter (\<lambda>p. group_key p = k) joined
            in (case k of (gid, name, lat, lon, url, team) \<Rightarrow>
                 \<lparr>ct_gym_id = gid, ct_name = name, ct_lat = lat, ct_lon = lon, ct_url = url,
                  ct_current_team = team, ct_change_count = length grp,
                  ct_last_changed = or_zero (sql_MAX (map (\<lambda>p. changed_at (fst p)) grp))\<rparr>))
          (remdups (map group_key joined)))"

definition contested_query :: "nat \<Rightarrow> nat \<Rightarrow> string \<Rightarrow> database \<Rightarrow> ContestedRow list" where
  "contested_query now d geofenceId db =
     take 20 (sort_key (\<lambda>row. (- int (ct_change_count row), - int (ct_last_changed row)))
                (contested_groups now d geofenceId db))"

text \<open>\<open>WHERE gym_id IN (...) ORDER BY changed_at DESC\<close>.\<close>

definition recent_query :: "string list \<Rightarrow> database \<Rightarrow> change_row list" where
  "recent_query gymIds db =
     sort_key (\<lambda>r. - int (changed_at r))
       (filter (\<lambda>r. gym_id r \<in> set gymIds) (gym_team_changes db))"

definition normalizeTeamId :: "nat option \<Rightarrow> nat option" where
  "normalizeTeamId teamId =
     (case teamId of None \<Rightarrow> None | Some t \<Rightarrow> if t = 0 then None else Some t)"

record ContestedGymChange =
  cg_from :: "nat option"
  cg_to :: "nat option"
  cg_timestamp :: int

definition mapRecentChanges_step ::
  "change_row \<Rightarrow> (string \<rightharpoonup> ContestedGymChange list) \<Rightarrow> (string \<rightharpoonup> ContestedGymChange list)" where
  "mapRecentChanges_step row grouped =
     (let fromTeam = normalizeTeamId (old_team_id row);
          toTeam = normalizeTeamId (new_team_id row)
      in if fromTeam = toTeam then grouped
         else
           (let list = (case grouped (gym_id row) of None \<Rightarrow> [] | Some l \<Rightarrow> l)
            in if length list < 5
               then grouped(gym_id row \<mapsto>
                      list @ [\<lparr>cg_from = fromTeam, cg_to = toTeam,
                                cg_timestamp = int (changed_at row) * 1000\<rparr>])
               else grouped(gym_id row \<mapsto> list)))"

definition mapRecentChanges :: "change_row list \<Rightarrow> (string \<rightharpoonup> ContestedGymChange list)" where
  "mapRecentChanges rows = fold mapRecentChanges_step rows Map.empty"

record ContestedGym =
  co_gym_id :: string
  co_name :: string
  co_lat :: rat
  co_lon :: rat
  co_url :: string
  co_current_team :: nat
  co_change_count :: nat
  co_last_changed :: int
  co_recent_changes :: "ContestedGymChange list"

record GymHistoryResponse =
  r_period :: PeriodKey
  r_chartData :: "ChartDataPoint list"
  r_contestedGyms :: "ContestedGym list"
  r_currentCounts :: CurrentCounts
  r_lastUpdated :: int

definition empty_history :: "PeriodKey \<Rightarrow> GymHistoryResponse" where
  "empty_history key =
     \<lparr>r_period = key, r_chartData = [], r_contestedGyms = [],
      r_currentCounts = \<lparr>cc_mystic = 0, cc_valor = 0, cc_instinct = 0, cc_total = 0\<rparr>,
      r_lastUpdated = 0\<rparr>"

definition history_config :: "env \<Rightarrow> error + string" where
  "history_config e =
     (case ensureIdentifier (DB_NAME e) ''DB_NAME'' of Inl err \<Rightarrow> Inl err | Inr dbName \<Rightarrow>
      case ensureIdentifier (GEOFENCE_DB_NAME e) ''GEOFENCE_DB_NAME'' of
        Inl err \<Rightarrow> Inl err | Inr geofenceDbName \<Rightarrow>
      ensureIdentifier (GEOFENCE_ID e) ''GEOFENCE_ID'')"

text \<open>
  The second \<open>try\<close> block of \<open>fetchGymHistory\<close>; \<open>Inl\<close> is a throw.  The reads of one
  call see one state of the store and one clock reading \<open>now\<close>.
\<close>

definition fetchGymHistory_try ::
  "faults \<Rightarrow> nat \<Rightarrow> database \<Rightarrow> PeriodKey \<Rightarrow> string \<Rightarrow> error + GymHistoryResponse" where
  "fetchGymHistory_try F now db key geofenceId =
     (let cfg = PERIOD_CONFIG key in
      case pool_execute F HistoryQuery (history_query now (bucket cfg) (duration cfg)) db of
        Inl err \<Rightarrow> Inl err
      | Inr historyRows \<Rightarrow>
     (let chartData = buildChartData historyRows in
      case pool_execute F LatestQuery latest_query db of
        Inl err \<Rightarrow> Inl err
      | Inr latestRows \<Rightarrow>
     (let currentCounts = currentCounts_of latestRows;
          lastUpdated = lastUpdated_of latestRows in
      case pool_execute F ContestedQuery (contested_query now (duration cfg) geofenceId) db of
        Inl err \<Rightarrow> Inl err
      | Inr contestedGyms \<Rightarrow>
     (let gymIds = map ct_gym_id contestedGyms in
      case (if 0 < length gymIds
            then (case pool_execute F RecentQuery (recent_query gymIds) db of
                    Inl err \<Rightarrow> Inl err
                  | Inr recentRows \<Rightarrow> Inr (mapRecentChanges recentRows))
            else Inr Map.empty) of
        Inl err \<Rightarrow> Inl err
      | Inr recentChangeMap \<Rightarrow>
          Inr \<lparr>r_period = key, r_chartData = chartData,
               r_contestedGyms =
                 map (\<lambda>row.
                    \<lparr>co_gym_id = ct_gym_id row, co_name = ct_name row, co_lat = ct_lat row,
                     co_lon = ct_lon row, co_url = ct_url row,
                     co_current_team = or_zero (ct_current_team row),
                     co_change_count = ct_change_count row,
                     co_last_changed = int (ct_last_changed row) * 1000,
                     co_recent_changes =
                       (case recentChangeMap (ct_gym_id row) of None \<Rightarrow> [] | Some l \<Rightarrow> l)\<rparr>)
                   contestedGyms,
               r_currentCounts = currentCounts, r_lastUpdated = lastUpdated\<rparr>))))"

definition fetchGymHistory ::
  "env \<Rightarrow> faults \<Rightarrow> nat \<Rightarrow> database \<Rightarrow> string \<Rightarrow> GymHistoryResponse \<times> log list" where
  "fetchGymHistory e F now db period_str =
     (let key = period_key period_str in
      case history_config e of
        Inl err \<Rightarrow> (empty_history key, [HistoryConfigError])
      | Inr geofenceId \<Rightarrow>
          (case fetchGymHistory_try F now db key geofenceId of
             Inr response \<Rightarrow> (response, [])
           | Inl err \<Rightarrow> (empty_history key, [HistoryFetchError])))"


subsection \<open>fetchGymSnapshot\<close>

text \<open>The string \<open>getTimeSinceUpdate\<close> builds, by its unit and number.\<close>

datatype time_ago = SecondsAgo int | MinutesAgo int | HoursAgo int | DaysAgo int

definition getTimeSinceUpdate :: "nat \<Rightarrow> nat \<Rightarrow> time_ago" where
  "getTimeSinceUpdate now unixTimestamp =
     (let diff = int now - int unixTimestamp in
      if diff < 60 then SecondsAgo diff
      else if diff < 3600 then MinutesAgo (diff div 60)
      else if diff < 86400 then HoursAgo (diff div 3600)
      else DaysAgo (diff div 86400))"

text \<open>
  A \<open>Gym\<close> of the response: the spread row, with \<open>defenders\<close> replaced by the parsed
  value, and \<open>slots\<close> and \<open>last_updated\<close> added.
\<close>

record Gym =
  gym_row_of :: gym_row
  gym_defenders :: json
  gym_slots :: "nat option"
  gym_last_updated :: time_ago

definition gym_team_id :: "Gym \<Rightarrow> nat option" where
  "gym_team_id gm = g_team_id (gym_row_of gm)"

record GymApiResult =
  ga_mystic :: "Gym list"
  ga_valor :: "Gym list"
  ga_instinct :: "Gym list"
  ga_counts_mystic :: nat
  ga_counts_valor :: nat
  ga_counts_instinct :: nat

definition DEFAULT_GYM_RESULT :: GymApiResult where
  "DEFAULT_GYM_RESULT =
     \<lparr>ga_mystic = [], ga_valor = [], ga_instinct = [],
      ga_counts_mystic = 0, ga_counts_valor = 0, ga_counts_instinct = 0\<rparr>"

definition snapshot_config :: "env \<Rightarrow> error + string" where
  "snapshot_config e =
     (case ensureIdentifier (GEOFENCE_ID e) ''GEOFENCE_ID'' of
        Inl err \<Rightarrow> Inl err
      | Inr geofenceId \<Rightarrow>
     (case ensureIdentifier (DB_NAME e) ''DB_NAME'' of
        Inl err \<Rightarrow> Inl err
      | Inr dbName \<Rightarrow>
     (case ensureIdentifier (GEOFENCE_DB_NAME e) ''GEOFENCE_DB_NAME'' of
        Inl err \<Rightarrow> Inl err
      | Inr geofenceDbName \<Rightarrow> Inr geofenceId)))"

definition snapshot_query :: "int \<Rightarrow> string \<Rightarrow> nat \<Rightarrow> database \<Rightarrow> gym_row list" where
  "snapshot_query timeWindow geofenceId now db =
     sort_key (\<lambda>g. - int (g_updated g))
       (filter (\<lambda>g. int now - timeWindow < int (g_updated g) \<and> g_enabled g = 1
                    \<and> in_geofence db geofenceId g) (gym db))"

text \<open>
  The inner \<open>try\<close> of the loop:
  \<open>defenders = gymRow.defenders ? JSON.parse(gymRow.defenders) : []\<close>, and on a throw a
  warning and \<open>[]\<close>.
\<close>

definition parse_defenders :: "js_lib \<Rightarrow> gym_row \<Rightarrow> json \<times> log list" where
  "parse_defenders js gymRow =
     (case g_defenders gymRow of
        None \<Rightarrow> (JArr [], [])
      | Some s \<Rightarrow>
          if s = [] then (JArr [], [])
          else (case JSON_parse js s of
                  None \<Rightarrow> (JArr [], [SnapshotParseWarning (g_id gymRow)])
                | Some v \<Rightarrow> (v, [])))"

definition snapshot_step ::
  "js_lib \<Rightarrow> nat \<Rightarrow> gym_row \<Rightarrow> GymApiResult \<times> log list \<Rightarrow> GymApiResult \<times> log list" where
  "snapshot_step js now gymRow acc =
     (let result = fst acc;
          parsed = parse_defenders js gymRow;
          slots = (case g_available_slots gymRow of
                     Some n \<Rightarrow> Some n | None \<Rightarrow> g_availble_slots gymRow);
          gym = \<lparr>gym_row_of = gymRow, gym_defenders = fst parsed, gym_slots = slots,
                 gym_last_updated = getTimeSinceUpdate now (g_updated gymRow)\<rparr>;
          logs = snd acc @ snd parsed
      in if gym_team_id gym = Some 1 then
           (result\<lparr>ga_mystic := ga_mystic result @ [gym],
                    ga_counts_mystic := ga_counts_mystic result + 1\<rparr>, logs)
         else if gym_team_id gym = Some 2 then
           (result\<lparr>ga_valor := ga_valor result @ [gym],
                    ga_counts_valor := ga_counts_valor result + 1\<rparr>, logs)
         else if gym_team_id gym = Some 3 then
           (result\<lparr>ga_instinct := ga_instinct result @ [gym],
                    ga_counts_instinct := ga_counts_instinct result + 1\<rparr>, logs)
         else (result, logs))"

definition fetchGymSnapshot ::
  "env \<Rightarrow> js_lib \<Rightarrow> faults \<Rightarrow> nat \<Rightarrow> database \<Rightarrow> GymApiResult \<times> log list" where
  "fetchGymSnapshot e js F now db =
     (case snapshot_config e of
        Inl err \<Rightarrow> (DEFAULT_GYM_RESULT, [SnapshotConfigError])
      | Inr geofenceId \<Rightarrow>
          (let timeWindow = (case GYM_TIME_WINDOW e of None \<Rightarrow> 3600 | Some w \<Rightarrow> w) in
           case pool_execute F SnapshotQuery (snapshot_query timeWindow geofenceId now) db of
             Inl err \<Rightarrow> (DEFAULT_GYM_RESULT, [SnapshotFetchError])
           | Inr gymRows \<Rightarrow>
               fold (snapshot_step js now) gymRows
                 (\<lparr>ga_mystic = [], ga_valor = [], ga_instinct = [],
                   ga_counts_mystic = 0, ga_counts_valor = 0, ga_counts_instinct = 0\<rparr>, [])))"

subsection \<open>fetchDefenderStats\<close>

record DefenderStats =
  ds_pokemon_id :: json
  ds_form :: "json option"
  ds_count :: nat
  ds_total_cp :: rat
  ds_avg_cp :: rat
  ds_name :: string

text \<open>A \<open>Map\<close> keeps its keys in insertion order; \<open>set\<close> on a present key keeps its place.\<close>

fun Map_set :: "'k \<Rightarrow> 'v \<Rightarrow> ('k \<times> 'v) list \<Rightarrow> ('k \<times> 'v) list" where
  "Map_set k v [] = [(k, v)]"
| "Map_set k v (p # ps) = (if fst p = k then (k, v) # ps else p # Map_set k v ps)"

record TeamAggregation =
  ta_defenders :: "(string \<times> DefenderStats) list"
  ta_totalDefenders :: nat
  ta_totalCp :: rat

definition toNumber :: "js_lib \<Rightarrow> json option \<Rightarrow> rat" where
  "toNumber js v =
     (case v of
        Some (JNum n) \<Rightarrow> n
      | Some (JStr s) \<Rightarrow> (case js_Number js s of Some parsed \<Rightarrow> parsed | None \<Rightarrow> 0)
      | _ \<Rightarrow> 0)"

text \<open>\<open>x || 0\<close>.\<close>

definition or_0 :: "json option \<Rightarrow> json" where
  "or_0 v = (case v of Some x \<Rightarrow> if truthy v then x else JNum 0 | None \<Rightarrow> JNum 0)"

definition defender_key :: "js_lib \<Rightarrow> json \<Rightarrow> json option \<Rightarrow> json option \<Rightarrow> string" where
  "defender_key js pokemon_id form costume =
     js_String js pokemon_id @ ''_'' @ js_String js (or_0 form) @ ''_'' @ js_String js (or_0 costume)"

text \<open>The body of \<open>for (const defender of defenders)\<close>.\<close>

definition defender_step :: "js_lib \<Rightarrow> json \<Rightarrow> TeamAggregation \<Rightarrow> error + TeamAggregation" where
  "defender_step js defender team =
     (case js_get defender ''pokemon_id'' of
        Inl err \<Rightarrow> Inl err
      | Inr None \<Rightarrow> Inr team
      | Inr (Some pokemon_id) \<Rightarrow>
          if \<not> truthy (Some pokemon_id) then Inr team
          else
            (let form = (case js_get defender ''form'' of Inl err \<Rightarrow> None | Inr f \<Rightarrow> f);
                 costume = (case js_get defender ''costume'' of Inl err \<Rightarrow> None | Inr c \<Rightarrow> c);
                 key = defender_key js pokemon_id form costume;
                 existing = map_of (ta_defenders team) key;
                 cp = toNumber js
                        (case js_get defender ''cp_when_deployed'' of Inl err \<Rightarrow> None | Inr c \<Rightarrow> c);
                 entry =
                   (case existing of
                      Some ex \<Rightarrow>
                        ex\<lparr>ds_count := ds_count ex + 1,
                           ds_total_cp := ds_total_cp ex + cp,
                           ds_avg_cp :=
                             of_int (Math_round ((ds_total_cp ex + cp)
                                                 / of_nat (max (ds_count ex + 1) 1)))\<rparr>
                    | None \<Rightarrow>
                        \<lparr>ds_pokemon_id = pokemon_id, ds_form = form, ds_count = 1,
                         ds_total_cp = cp, ds_avg_cp = cp,
                         ds_name = getPokemonName js pokemon_id\<rparr>)
             in Inr (team\<lparr>ta_defenders := Map_set key entry (ta_defenders team),
                          ta_totalDefenders := ta_totalDefenders team + 1,
                          ta_totalCp := ta_totalCp team + cp\<rparr>)))"

fun defender_loop :: "js_lib \<Rightarrow> json list \<Rightarrow> TeamAggregation \<Rightarrow> error + TeamAggregation" where
  "defender_loop js [] team = Inr team"
| "defender_loop js (defender # defenders) team =
     (case defender_step js defender team of
        Inl err \<Rightarrow> Inl err
      | Inr team' \<Rightarrow> defender_loop js defenders team')"

text \<open>
  The loop over the rows of the query.  The warnings logged so far are kept when an
  element throws.
\<close>

fun stats_rows ::
  "js_lib \<Rightarrow> (nat option \<times> string option) list \<Rightarrow> (nat \<rightharpoonup> TeamAggregation) \<Rightarrow> log list
     \<Rightarrow> (error + (nat \<rightharpoonup> TeamAggregation)) \<times> log list" where
  "stats_rows js [] teamStats logs = (Inr teamStats, logs)"
| "stats_rows js (row # rows) teamStats logs =
     (case snd row of
        None \<Rightarrow> stats_rows js rows teamStats logs
      | Some s \<Rightarrow>
          if s = [] then stats_rows js rows teamStats logs
          else
            (case JSON_parse js s of
               None \<Rightarrow> stats_rows js rows teamStats (logs @ [StatsParseWarning])
             | Some (JArr defenders) \<Rightarrow>
                 (case fst row of
                    None \<Rightarrow> stats_rows js rows teamStats logs
                  | Some team_id \<Rightarrow>
                      (case teamStats team_id of
                         None \<Rightarrow> stats_rows js rows teamStats logs
                       | Some team \<Rightarrow>
                           (case defender_loop js defenders team of
                              Inl err \<Rightarrow> (Inl err, logs)
                            | Inr team' \<Rightarrow>
                                stats_rows js rows (teamStats(team_id \<mapsto> team')) logs)))
             | Some parsedDefenders \<Rightarrow>
                 stats_rows js rows teamStats (logs @ [StatsShapeWarning])))"

record TeamStats =
  ts_team_name :: string
  ts_team_id :: nat
  ts_total_defenders :: nat
  ts_unique_species :: nat
  ts_top_defenders :: "DefenderStats list"
  ts_total_cp :: rat
  ts_avg_cp_per_defender :: int

definition team_stats_of :: "js_lib \<Rightarrow> (nat \<rightharpoonup> TeamAggregation) \<Rightarrow> nat \<Rightarrow> TeamStats" where
  "team_stats_of js teamStats teamId =
     (let team = (case teamStats teamId of
                    Some t \<Rightarrow> t
                  | None \<Rightarrow> \<lparr>ta_defenders = [], ta_totalDefenders = 0, ta_totalCp = 0\<rparr>);
          defenders = sort_key (\<lambda>d. - int (ds_count d)) (map snd (ta_defenders team))
      in \<lparr>ts_team_name = (case TEAM_NAMES js teamId of Some n \<Rightarrow> n | None \<Rightarrow> ''Unknown''),
          ts_team_id = teamId,
          ts_total_defenders = ta_totalDefenders team,
          ts_unique_species = length defenders,
          ts_top_defenders = take 10 defenders,
          ts_total_cp = ta_totalCp team,
          ts_avg_cp_per_defender =
            (if ta_totalDefenders team \<noteq> 0
             then Math_round (ta_totalCp team / of_nat (ta_totalDefenders team)) else 0)\<rparr>)"

text \<open>
  \<open>timestamp\<close> is held as the clock reading whose ISO string the response carries:
  the time the module was loaded for \<open>DEFAULT_STATS\<close>, the time of the call otherwise.
\<close>

record StatsData =
  sd_teams :: "TeamStats list"
  sd_total_defenders_all_teams :: nat
  sd_timestamp :: nat

definition DEFAULT_STATS :: "nat \<Rightarrow> StatsData" where
  "DEFAULT_STATS loaded = \<lparr>sd_teams = [], sd_total_defenders_all_teams = 0, sd_timestamp = loaded\<rparr>"

definition stats_config :: "env \<Rightarrow> error + string" where
  "stats_config e =
     (case ensureIdentifier (GEOFENCE_ID e) ''GEOFENCE_ID'' of
        Inl err \<Rightarrow> Inl err
      | Inr geofenceId \<Rightarrow>
     (case ensureIdentifier (GEOFENCE_DB_NAME e) ''GEOFENCE_DB_NAME'' of
        Inl err \<Rightarrow> Inl err
      | Inr geofenceDbName \<Rightarrow>
     (case ensureIdentifier (DB_NAME e) ''DB_NAME'' of
        Inl err \<Rightarrow> Inl err
      | Inr dbName \<Rightarrow> Inr geofenceId)))"

definition defender_query :: "string \<Rightarrow> database \<Rightarrow> (nat option \<times> string option) list" where
  "defender_query geofenceId db =
     map (\<lambda>g. (g_team_id g, g_defenders g))
       (filter (\<lambda>g. g_enabled g = 1 \<and> g_team_id g \<in> {Some 1, Some 2, Some 3}
                    \<and> in_geofence db geofenceId g) (gym db))"

definition initial_teamStats :: "nat \<rightharpoonup> TeamAggregation" where
  "initial_teamStats =
     [1 \<mapsto> \<lparr>ta_defenders = [], ta_totalDefenders = 0, ta_totalCp = 0\<rparr>,
      2 \<mapsto> \<lparr>ta_defenders = [], ta_totalDefenders = 0, ta_totalCp = 0\<rparr>,
      3 \<mapsto> \<lparr>ta_defenders = [], ta_totalDefenders = 0, ta_totalCp = 0\<rparr>]"

definition fetchDefenderStats ::
  "env \<Rightarrow> js_lib \<Rightarrow> faults \<Rightarrow> nat \<Rightarrow> nat \<Rightarrow> database \<Rightarrow> StatsData \<times> log list" where
  "fetchDefenderStats e js F loaded now db =
     (case stats_config e of
        Inl err \<Rightarrow> (DEFAULT_STATS loaded, [StatsConfigError])
      | Inr geofenceId \<Rightarrow>
          (case pool_execute F DefenderQuery (defender_query geofenceId) db of
             Inl err \<Rightarrow> (DEFAULT_STATS loaded, [StatsFetchError])
           | Inr rows \<Rightarrow>
               (case stats_rows js rows initial_teamStats [] of
                  (Inl err, logs) \<Rightarrow> (DEFAULT_STATS loaded, logs @ [StatsFetchError])
                | (Inr teamStats, logs) \<Rightarrow>
                    (let teams = map (team_stats_of js teamStats) [1, 2, 3]
                     in (\<lparr>sd_teams = teams,
                          sd_total_defenders_all_teams =
                            fold (\<lambda>team sum. sum + ts_total_defenders team) teams 0,
                          sd_timestamp = now\<rparr>, logs)))))"


section \<open>What a run of the collector writes\<close>

text \<open>
  The rows the loop of \<open>trackTeamChanges\<close> inserts, in order, when no insert fails.
\<close>

fun change_events ::
  "nat \<Rightarrow> (string \<times> nat option) list \<Rightarrow> (string \<rightharpoonup> nat option) \<Rightarrow> change_row list" where
  "change_events ts [] m = []"
| "change_events ts (row # rows) m =
     (case m (fst row) of
        None \<Rightarrow>
          \<lparr>gym_id = fst row, old_team_id = None, new_team_id = snd row, changed_at = ts\<rparr>
            # change_events ts rows (m(fst row \<mapsto> snd row))
      | Some lastTeam \<Rightarrow>
          if lastTeam \<noteq> snd row then
            \<lparr>gym_id = fst row, old_team_id = lastTeam, new_team_id = snd row, changed_at = ts\<rparr>
              # change_events ts rows (m(fst row \<mapsto> snd row))
          else change_events ts rows m)"

definition append_changes :: "change_row list \<Rightarrow> database \<Rightarrow> database" where
  "append_changes evs db = db\<lparr>gym_team_changes := gym_team_changes db @ evs\<rparr>"

definition emitted_events :: "string \<Rightarrow> nat \<Rightarrow> database \<Rightarrow> change_row list" where
  "emitted_events geofenceId now db =
     change_events now (current_gyms_query geofenceId db) (lastStateMap_of (last_state_query db))"

text \<open>The history row of a run: the counts of the count query at the time of the run.\<close>

definition new_sample :: "string \<Rightarrow> nat \<Rightarrow> database \<Rightarrow> history_row" where
  "new_sample geofenceId now db =
     (let rows = filter (\<lambda>g. g_enabled g = 1 \<and> in_geofence db geofenceId g) (gym db)
      in \<lparr>timestamp = now,
          team_mystic = length (filter (\<lambda>g. g_team_id g = Some 1) rows),
          team_valor = length (filter (\<lambda>g. g_team_id g = Some 2) rows),
          team_instinct = length (filter (\<lambda>g. g_team_id g = Some 3) rows),
          total_gyms = length rows\<rparr>)"

text \<open>The statements a run issues when none of them fails.\<close>

definition run_statements :: "string \<Rightarrow> nat \<Rightarrow> database \<Rightarrow> stmt set" where
  "run_statements geofenceId now db =
     {GetConnection, BeginTransaction, CountQuery, InsertHistory, CurrentQuery, LastStateQuery,
      DeleteHistory, DeleteChanges, Commit}
     \<union> (\<lambda>e. InsertChange (gym_id e)) ` set (emitted_events geofenceId now db)"

text \<open>The store after all the writes of one run.\<close>

definition collected :: "string \<Rightarrow> int \<Rightarrow> nat \<Rightarrow> database \<Rightarrow> database" where
  "collected geofenceId retentionSeconds now db =
     delete_changes now retentionSeconds
       (delete_history now retentionSeconds
          (append_changes (emitted_events geofenceId now db)
             (insert_history (new_sample geofenceId now db) db)))"

text \<open>
  The last known owner of a gym, in the words of the specification: the \<open>new_team_id\<close> of
  its most recent change row, the greatest \<open>changed_at\<close> and, among rows of the same
  second, the one inserted last.
\<close>

definition prior_events :: "change_row list \<Rightarrow> string \<Rightarrow> change_row list" where
  "prior_events tbl g = filter (\<lambda>e. gym_id e = g) tbl"

definition lastOwner :: "change_row list \<Rightarrow> string \<Rightarrow> nat option" where
  "lastOwner tbl g =
     (let own = prior_events tbl g
      in new_team_id (last (filter (\<lambda>e. changed_at e = Max (set (map changed_at own))) own)))"

section \<open>What a request for the history returns\<close>

text \<open>The average of a bucket in the words of the specification: the arithmetic mean.\<close>

definition mean :: "nat list \<Rightarrow> rat" where
  "mean xs = of_nat (sum_list xs) / of_nat (length xs)"

text \<open>The response of \<open>fetchGymHistory\<close> when the configuration is valid and no read fails.\<close>

definition response_of :: "nat \<Rightarrow> database \<Rightarrow> PeriodKey \<Rightarrow> string \<Rightarrow> GymHistoryResponse" where
  "response_of now db key geofenceId =
     (let cfg = PERIOD_CONFIG key;
          contestedRows = contested_query now (duration cfg) geofenceId db;
          recentChangeMap =
            (if contestedRows = [] then Map.empty
             else mapRecentChanges (recent_query (map ct_gym_id contestedRows) db))
      in \<lparr>r_period = key,
          r_chartData = buildChartData (history_query now (bucket cfg) (duration cfg) db),
          r_contestedGyms =
            map (\<lambda>row.
               \<lparr>co_gym_id = ct_gym_id row, co_name = ct_name row, co_lat = ct_lat row,
                co_lon = ct_lon row, co_url = ct_url row,
                co_current_team = or_zero (ct_current_team row),
                co_change_count = ct_change_count row,
                co_last_changed = int (ct_last_changed row) * 1000,
                co_recent_changes =
                  (case recentChangeMap (ct_gym_id row) of None \<Rightarrow> [] | Some l \<Rightarrow> l)\<rparr>)
              contestedRows,
          r_currentCounts = currentCounts_of (latest_query db),
          r_lastUpdated = lastUpdated_of (latest_query db)\<rparr>)"

section \<open>Well-formed payloads\<close>

text \<open>\<open>Array.isArray\<close> on a parsed value.\<close>

definition is_array :: "json \<Rightarrow> bool" where
  "is_array v = (case v of JArr xs \<Rightarrow> True | _ \<Rightarrow> False)"

section \<open>The invariant of the snapshot loop\<close>

text \<open>What holds of \<open>result\<close> before and after every iteration of the loop of \<open>fetchGymSnapshot\<close>.\<close>

definition snapshot_inv :: "GymApiResult \<Rightarrow> bool" where
  "snapshot_inv r =
     (ga_counts_mystic r = length (ga_mystic r)
      \<and> ga_counts_valor r = length (ga_valor r)
      \<and> ga_counts_instinct r = length (ga_instinct r)
      \<and> list_all (\<lambda>g. gym_team_id g = Some 1) (ga_mystic r)
      \<and> list_all (\<lambda>g. gym_team_id g = Some 2) (ga_valor r)
      \<and> list_all (\<lambda>g. gym_team_id g = Some 3) (ga_instinct r))"

section \<open>Example stores\<close>

text \<open>Concrete inputs on which the theorems below are instantiated.\<close>

definition no_faults :: faults where
  "no_faults = (\<lambda>s. False)"

definition example_env :: env where
  "example_env =
     \<lparr>DB_HOST = Some ''localhost'', DB_USER = Some ''golbat'', DB_PASS = Some ''secret'',
      DB_NAME = Some ''golbat'', GEOFENCE_DB_NAME = Some ''koji'', GEOFENCE_ID = Some ''fence_1'',
      GYM_HISTORY_RETENTION_DAYS = None, GYM_TIME_WINDOW = None\<rparr>"

definition example_fence :: "string \<Rightarrow> rat \<Rightarrow> rat \<Rightarrow> bool" where
  "example_fence fence lon lat = (fence = ''fence_1'' \<and> 0 \<le> lon \<and> lon \<le> 1 \<and> 0 \<le> lat \<and> lat \<le> 1)"

definition example_gym :: "string \<Rightarrow> nat option \<Rightarrow> string option \<Rightarrow> gym_row" where
  "example_gym i team payload =
     \<lparr>g_id = i, g_name = ''Gym '' @ i, g_team_id = team, g_lat = 1 / 2, g_lon = 1 / 2,
      g_url = [], g_description = None, g_available_slots = Some 2, g_availble_slots = None,
      g_guarding_pokemon_id = None, g_updated = 1700000000, g_defenders = payload,
      g_total_cp = None, g_enabled = 1\<rparr>"

definition example_db :: "gym_row list \<Rightarrow> history_row list \<Rightarrow> change_row list \<Rightarrow> database" where
  "example_db gyms history changes =
     \<lparr>gym = gyms, geofence = example_fence, gym_history = history, gym_team_changes = changes\<rparr>"

definition fault_at :: "stmt \<Rightarrow> faults" where
  "fault_at s = (\<lambda>x. x = s)"

definition example_store :: database where
  "example_store =
     example_db
       [example_gym ''gym_a'' (Some 2) None, example_gym ''gym_b'' None None]
       [\<lparr>timestamp = 1690000000, team_mystic = 1, team_valor = 0, team_instinct = 0, total_gyms = 1\<rparr>,
        \<lparr>timestamp = 1700000000, team_mystic = 1, team_valor = 0, team_instinct = 0, total_gyms = 1\<rparr>]
       [\<lparr>gym_id = ''gym_a'', old_team_id = None, new_team_id = Some 1, changed_at = 1690000000\<rparr>,
        \<lparr>gym_id = ''gym_a'', old_team_id = Some 1, new_team_id = Some 3, changed_at = 1699990000\<rparr>]"

text \<open>A single gym observed by three runs of the collector.\<close>

definition run_at :: "nat \<Rightarrow> database \<Rightarrow> database" where
  "run_at now db = snd (collectGymHistory example_env no_faults now db)"

definition lifetime_store :: database where
  "lifetime_store = example_db [example_gym ''gym_a'' (Some 1) None] [] []"

text \<open>Stores for the history, the ranking and the defender payloads.\<close>

definition chart_store :: database where
  "chart_store =
     example_db [] 
       [\<lparr>timestamp = 1699970000, team_mystic = 9, team_valor = 9, team_instinct = 9, total_gyms = 30\<rparr>,
        \<lparr>timestamp = 1700000100, team_mystic = 3, team_valor = 5, team_instinct = 2, total_gyms = 10\<rparr>,
        \<lparr>timestamp = 1700001000, team_mystic = 5, team_valor = 5, team_instinct = 5, total_gyms = 12\<rparr>,
        \<lparr>timestamp = 1700000200, team_mystic = 4, team_valor = 5, team_instinct = 2, total_gyms = 20\<rparr>,
        \<lparr>timestamp = 1700000399, team_mystic = 4, team_valor = 6, team_instinct = 2, total_gyms = 31\<rparr>]
       []"


definition example_js :: js_lib where
  "example_js =
     \<lparr>JSON_parse = (\<lambda>s. if s = ''{}'' then Some (JObj [])
                        else if s = ''[]'' then Some (JArr []) else None),
      js_String = (\<lambda>v. ''?''),
      js_Number = (\<lambda>s. None),
      getPokemonName = (\<lambda>v. ''Unknown''),
      TEAM_NAMES = (\<lambda>t. if t = 1 then Some ''Mystic'' else if t = 2 then Some ''Valor''
                          else if t = 3 then Some ''Instinct'' else None)\<rparr>"

definition payload_store :: "string \<Rightarrow> database" where
  "payload_store payload =
     example_db [example_gym ''gym_a'' (Some 1) (Some payload),
                 example_gym ''gym_b'' (Some 2) (Some ''[]'')] [] []"

definition snapshot_store :: database where
  "snapshot_store =
     example_db
       [example_gym ''gym_a'' (Some 1) None, example_gym ''gym_b'' (Some 2) (Some ''[]''),
        example_gym ''gym_c'' (Some 0) None, example_gym ''gym_d'' None None,
        example_gym ''gym_e'' (Some 3) (Some ''not json''), example_gym ''gym_f'' (Some 7) None]
       [] []"

section \<open>The collector: what a run commits\<close>

text \<open>
  The map built from the last-state query is the last known owner of every gym; the loop
  inserts the rows of \<open>change_events\<close>; a run in which no statement fails commits
  \<open>collected\<close>, and a run in which one fails commits nothing.
\<close>

lemma sql_MAX_Max: "xs \<noteq> [] \<Longrightarrow> sql_MAX xs = Some (Max (set xs))"
  by (cases xs) (simp_all add: sql_MAX_def Max.set_eq_fold[symmetric])

lemma concat_map_if:
  "concat (map (\<lambda>x. if P x then [f x] else []) xs) = map f (filter P xs)"
  by (induction xs) auto

lemma filter_eq_key_distinct:
  "distinct ks \<Longrightarrow> filter (\<lambda>k. k = a \<and> P k) ks = (if a \<in> set ks \<and> P a then [a] else [])"
  by (induction ks) auto

lemma last_state_query_eq:
  "last_state_query db =
     map (\<lambda>r. (gym_id r, new_team_id r))
       (filter (\<lambda>r. changed_at r = Max (set (map changed_at (prior_events (gym_team_changes db) (gym_id r)))))
          (gym_team_changes db))"
proof -
  let ?tbl = "gym_team_changes db"
  let ?M = "\<lambda>g. sql_MAX (map changed_at (filter (\<lambda>r. gym_id r = g) ?tbl))"
  have one: "map (\<lambda>l. (gym_id gtc, new_team_id gtc))
              (filter (\<lambda>l. fst l = gym_id gtc \<and> snd l = Some (changed_at gtc)) (latest_changed ?tbl))
            = (if changed_at gtc = Max (set (map changed_at (prior_events ?tbl (gym_id gtc))))
               then [(gym_id gtc, new_team_id gtc)] else [])"
    if "gtc \<in> set ?tbl" for gtc
  proof -
    have ne: "filter (\<lambda>r. gym_id r = gym_id gtc) ?tbl \<noteq> []"
      using that by (auto simp: filter_empty_conv)
    have "filter (\<lambda>l. fst l = gym_id gtc \<and> snd l = Some (changed_at gtc)) (latest_changed ?tbl)
          = map (\<lambda>g. (g, ?M g)) (filter (\<lambda>k. k = gym_id gtc \<and> ?M k = Some (changed_at gtc)) (remdups (map gym_id ?tbl)))"
      by (simp add: latest_changed_def filter_map comp_def)
    also have "\<dots> = (if ?M (gym_id gtc) = Some (changed_at gtc) then [(gym_id gtc, ?M (gym_id gtc))] else [])"
      using that by (simp add: filter_eq_key_distinct)
    finally show ?thesis
      using sql_MAX_Max[of "map changed_at (filter (\<lambda>r. gym_id r = gym_id gtc) ?tbl)"] ne
      by (auto simp: prior_events_def)
  qed
  have "last_state_query db = concat (map (\<lambda>gtc. if changed_at gtc = Max (set (map changed_at (prior_events ?tbl (gym_id gtc))))
               then [(gym_id gtc, new_team_id gtc)] else []) ?tbl)"
    unfolding last_state_query_def Let_def
    by (rule arg_cong[where f=concat], rule map_cong) (simp_all add: one)
  also have "\<dots> = map (\<lambda>r. (gym_id r, new_team_id r))
       (filter (\<lambda>r. changed_at r = Max (set (map changed_at (prior_events ?tbl (gym_id r))))) ?tbl)"
    by (rule concat_map_if)
  finally show ?thesis .
qed

lemma lastStateMap_of_map:
  "lastStateMap_of (map (\<lambda>r. (gym_id r, new_team_id r)) xs) g =
     (case filter (\<lambda>r. gym_id r = g) xs of [] \<Rightarrow> None | y # ys \<Rightarrow> Some (new_team_id (last (y # ys))))"
proof (induction xs rule: rev_induct)
  case Nil
  show ?case by (simp add: lastStateMap_of_def)
next
  case (snoc x xs)
  have step: "lastStateMap_of (map (\<lambda>r. (gym_id r, new_team_id r)) (xs @ [x])) =
        (lastStateMap_of (map (\<lambda>r. (gym_id r, new_team_id r)) xs))(gym_id x \<mapsto> new_team_id x)"
    by (simp add: lastStateMap_of_def)
  show ?case unfolding step using snoc
    by (auto split: list.splits simp: filter_empty_conv)
qed

lemma lastStateMap_lastOwner:
  "lastStateMap_of (last_state_query db) g =
     (if prior_events (gym_team_changes db) g = [] then None
      else Some (lastOwner (gym_team_changes db) g))"
proof -
  let ?tbl = "gym_team_changes db"
  let ?own = "prior_events ?tbl g"
  let ?P = "\<lambda>r. changed_at r = Max (set (map changed_at (prior_events ?tbl (gym_id r))))"
  have f: "filter (\<lambda>r. gym_id r = g) (filter ?P ?tbl) =
           filter (\<lambda>e. changed_at e = Max (set (map changed_at ?own))) ?own"
    unfolding prior_events_def filter_filter
    by (rule filter_cong) auto
  have eq: "lastStateMap_of (last_state_query db) g =
     (case filter (\<lambda>e. changed_at e = Max (set (map changed_at ?own))) ?own of
        [] \<Rightarrow> None | y # ys \<Rightarrow> Some (new_team_id (last (y # ys))))"
    by (simp only: last_state_query_eq lastStateMap_of_map f)
  show ?thesis
  proof (cases "?own = []")
    case True
    then show ?thesis
      by (simp add: eq)
  next
    case False
    then have "Max (set (map changed_at ?own)) \<in> set (map changed_at ?own)"
      by (intro Max_in) auto
    then have ne: "filter (\<lambda>e. changed_at e = Max (set (map changed_at ?own))) ?own \<noteq> []"
      by (auto simp: filter_empty_conv)
    with False show ?thesis
      unfolding eq lastOwner_def Let_def by (simp split: list.splits)
  qed
qed

lemma append_changes_Nil [simp]: "append_changes [] db = db"
  by (simp add: append_changes_def)

lemma append_changes_Cons:
  "append_changes (e # evs) db = append_changes evs (insert_change e db)"
  by (simp add: append_changes_def insert_change_def)

lemma conn_execute_in_tx:
  "in_tx c \<Longrightarrow> conn_execute F s w c =
     (if F s then (Inl (StoreError s), c) else (Inr (), c\<lparr>working := w (working c)\<rparr>))"
  by (simp add: conn_execute_def)

lemma track_loop_ok:
  "in_tx c \<Longrightarrow> \<forall>e \<in> set (change_events ts rows m). \<not> F (InsertChange (gym_id e)) \<Longrightarrow>
   track_loop F ts rows m c = (Inr (), c\<lparr>working := append_changes (change_events ts rows m) (working c)\<rparr>)"
proof (induction rows arbitrary: m c)
  case Nil
  then show ?case by simp
next
  case (Cons row rows)
  let ?m' = "m(fst row \<mapsto> snd row)"
  show ?case
  proof (cases "m (fst row)")
    case None
    let ?c' = "c\<lparr>working := insert_change \<lparr>gym_id = fst row, old_team_id = None,
                  new_team_id = snd row, changed_at = ts\<rparr> (working c)\<rparr>"
    from None Cons.prems have nf: "\<not> F (InsertChange (fst row))"
      and rest: "\<forall>e \<in> set (change_events ts rows ?m'). \<not> F (InsertChange (gym_id e))"
      by simp_all
    have tx: "in_tx ?c'" using Cons.prems(1) by simp
    have "track_loop F ts (row # rows) m c = track_loop F ts rows ?m' ?c'"
      using None nf Cons.prems(1) by (simp add: conn_execute_in_tx Let_def)
    also have "\<dots> = (Inr (), ?c'\<lparr>working := append_changes (change_events ts rows ?m') (working ?c')\<rparr>)"
      by (rule Cons.IH[OF tx rest])
    finally show ?thesis using None by (simp add: append_changes_Cons)
  next
    case (Some lastTeam)
    show ?thesis
    proof (cases "lastTeam = snd row")
      case True
      with Some Cons.prems Cons.IH[of c m] show ?thesis by (simp add: Let_def)
    next
      case False
      let ?c' = "c\<lparr>working := insert_change \<lparr>gym_id = fst row, old_team_id = lastTeam,
                  new_team_id = snd row, changed_at = ts\<rparr> (working c)\<rparr>"
      from Some False Cons.prems have nf: "\<not> F (InsertChange (fst row))"
        and rest: "\<forall>e \<in> set (change_events ts rows ?m'). \<not> F (InsertChange (gym_id e))"
        by simp_all
      have tx: "in_tx ?c'" using Cons.prems(1) by simp
      have "track_loop F ts (row # rows) m c = track_loop F ts rows ?m' ?c'"
        using Some False nf Cons.prems(1) by (simp add: conn_execute_in_tx Let_def)
      also have "\<dots> = (Inr (), ?c'\<lparr>working := append_changes (change_events ts rows ?m') (working ?c')\<rparr>)"
        by (rule Cons.IH[OF tx rest])
      finally show ?thesis using Some False by (simp add: append_changes_Cons)
    qed
  qed
qed

lemma track_loop_fail:
  "in_tx c \<Longrightarrow> e \<in> set (change_events ts rows m) \<Longrightarrow> F (InsertChange (gym_id e)) \<Longrightarrow>
   \<exists>err c'. track_loop F ts rows m c = (Inl err, c') \<and> committed c' = committed c"
proof (induction rows arbitrary: m c)
  case Nil
  then show ?case by simp
next
  case (Cons row rows)
  let ?m' = "m(fst row \<mapsto> snd row)"
  have emitted: ?case
    if ev: "change_events ts (row # rows) m = ev # change_events ts rows ?m'"
      and gid: "gym_id ev = fst row"
      and step: "\<not> F (InsertChange (fst row)) \<Longrightarrow>
         track_loop F ts (row # rows) m c =
         track_loop F ts rows ?m' (c\<lparr>working := insert_change ev (working c)\<rparr>)"
      and stop: "F (InsertChange (fst row)) \<Longrightarrow>
         track_loop F ts (row # rows) m c = (Inl (StoreError (InsertChange (fst row))), c)"
    for ev
  proof (cases "F (InsertChange (fst row))")
    case True
    then show ?thesis using stop by simp
  next
    case False
    with Cons.prems(2,3) ev gid have in_rest: "e \<in> set (change_events ts rows ?m')"
      by auto
    let ?c' = "c\<lparr>working := insert_change ev (working c)\<rparr>"
    have tx: "in_tx ?c'" using Cons.prems(1) by simp
    have "\<exists>err c'. track_loop F ts rows ?m' ?c' = (Inl err, c') \<and> committed c' = committed ?c'"
      by (rule Cons.IH[OF tx in_rest Cons.prems(3)])
    then obtain err c' where r: "track_loop F ts rows ?m' ?c' = (Inl err, c')"
      and cm: "committed c' = committed ?c'" by blast
    have "track_loop F ts (row # rows) m c = (Inl err, c')"
      by (simp only: step[OF False] r)
    moreover have "committed c' = committed c" using cm by simp
    ultimately show ?thesis by blast
  qed
  show ?case
  proof (cases "m (fst row)")
    case None
    show ?thesis
      by (rule emitted[of "\<lparr>gym_id = fst row, old_team_id = None, new_team_id = snd row, changed_at = ts\<rparr>"])
         (use None Cons.prems(1) in \<open>simp_all add: conn_execute_in_tx Let_def\<close>)
  next
    case (Some lastTeam)
    show ?thesis
    proof (cases "lastTeam = snd row")
      case True
      with Some Cons.prems have in_rest: "e \<in> set (change_events ts rows m)" by simp
      have "track_loop F ts (row # rows) m c = track_loop F ts rows m c"
        using Some True by (simp add: Let_def)
      then show ?thesis
        using Cons.IH[OF Cons.prems(1) in_rest Cons.prems(3)] by (simp only:)
    next
      case False
      show ?thesis
        by (rule emitted[of "\<lparr>gym_id = fst row, old_team_id = lastTeam, new_team_id = snd row, changed_at = ts\<rparr>"])
           (use Some False Cons.prems(1) in \<open>simp_all add: conn_execute_in_tx Let_def\<close>)
    qed
  qed
qed

lemma change_events_absent:
  "g \<notin> fst ` set rows \<Longrightarrow> filter (\<lambda>e. gym_id e = g) (change_events ts rows m) = []"
  by (induction rows arbitrary: m) (auto split: option.splits)

lemma change_events_distinct:
  "distinct (map fst rows) \<Longrightarrow> (g, t) \<in> set rows \<Longrightarrow>
   filter (\<lambda>e. gym_id e = g) (change_events ts rows m) =
     (case m g of
        None \<Rightarrow> [\<lparr>gym_id = g, old_team_id = None, new_team_id = t, changed_at = ts\<rparr>]
      | Some lastTeam \<Rightarrow>
          if lastTeam \<noteq> t
          then [\<lparr>gym_id = g, old_team_id = lastTeam, new_team_id = t, changed_at = ts\<rparr>]
          else [])"
proof (induction rows arbitrary: m)
  case Nil
  then show ?case by simp
next
  case (Cons row rows)
  obtain g' t' where row: "row = (g', t')" by (cases row)
  show ?case
  proof (cases "g' = g")
    case True
    with Cons.prems row have t: "t' = t" and notin: "g \<notin> fst ` set rows"
      by (auto simp: image_iff)
    show ?thesis
      using True t row change_events_absent[OF notin]
      by (auto split: option.splits)
  next
    case False
    with Cons.prems row have "(g, t) \<in> set rows" "distinct (map fst rows)" by auto
    from Cons.IH[OF this(2,1)] False row show ?thesis
      by (auto split: option.splits)
  qed
qed

lemma sum_list_indicator:
  "sum_list (map (\<lambda>g. if P g then 1 else 0) xs) = length (filter P xs)"
  by (induction xs) auto

lemma or_zero_sql_SUM:
  "or_zero (sql_SUM (map (\<lambda>g. if P g then 1 else 0) xs)) = length (filter P xs)"
  by (cases "xs = []") (simp_all add: or_zero_def sql_SUM_def sum_list_indicator)

lemma sample_of_counts:
  "\<lparr>timestamp = now, team_mystic = or_zero (cr_mystic (count_query gid db)),
    team_valor = or_zero (cr_valor (count_query gid db)),
    team_instinct = or_zero (cr_instinct (count_query gid db)),
    total_gyms = cr_total (count_query gid db)\<rparr> = new_sample gid now db"
  by (simp add: count_query_def new_sample_def Let_def or_zero_sql_SUM)

lemma queries_insert_history [simp]:
  "current_gyms_query gid (insert_history r db) = current_gyms_query gid db"
  "last_state_query (insert_history r db) = last_state_query db"
  by (simp_all add: current_gyms_query_def last_state_query_def insert_history_def in_geofence_def)

lemma trackTeamChanges_ok:
  assumes "in_tx c" "\<not> F CurrentQuery" "\<not> F LastStateQuery"
    and "\<forall>e \<in> set (emitted_events gid ts (working c)). \<not> F (InsertChange (gym_id e))"
  shows "trackTeamChanges F gid ts c =
           (Inr (), c\<lparr>working := append_changes (emitted_events gid ts (working c)) (working c)\<rparr>)"
  using assms track_loop_ok[of c ts "current_gyms_query gid (working c)"
      "lastStateMap_of (last_state_query (working c))" F]
  by (simp add: trackTeamChanges_def conn_query_def emitted_events_def)

lemma trackTeamChanges_fail:
  assumes "in_tx c"
    and "F CurrentQuery \<or> F LastStateQuery \<or>
         (\<exists>e \<in> set (emitted_events gid ts (working c)). F (InsertChange (gym_id e)))"
  shows "\<exists>err c'. trackTeamChanges F gid ts c = (Inl err, c') \<and> committed c' = committed c"
proof (cases "F CurrentQuery \<or> F LastStateQuery")
  case True
  then show ?thesis by (auto simp: trackTeamChanges_def conn_query_def)
next
  case False
  with assms(2) obtain e where e: "e \<in> set (emitted_events gid ts (working c))"
    "F (InsertChange (gym_id e))" by blast
  from track_loop_fail[where c=c and e=e and F=F and ts=ts
      and rows="current_gyms_query gid (working c)"
      and m="lastStateMap_of (last_state_query (working c))"]
    assms(1) e False
  show ?thesis by (simp add: trackTeamChanges_def conn_query_def emitted_events_def)
qed

lemma collect_body_ok:
  assumes "\<forall>s \<in> run_statements gid now db. \<not> F s"
  shows "collect_body F gid ret now (getConnection db) =
           (Inr (), \<lparr>committed = collected gid ret now db, working = collected gid ret now db,
                     in_tx = False\<rparr>)"
proof -
  let ?h = "insert_history (new_sample gid now db) db"
  let ?c2 = "\<lparr>committed = db, working = ?h, in_tx = True\<rparr>"
  from assms have nf: "\<not> F BeginTransaction" "\<not> F CountQuery" "\<not> F InsertHistory"
    "\<not> F CurrentQuery" "\<not> F LastStateQuery" "\<not> F DeleteHistory" "\<not> F DeleteChanges" "\<not> F Commit"
    and ni: "\<forall>e \<in> set (emitted_events gid now db). \<not> F (InsertChange (gym_id e))"
    by (simp_all add: run_statements_def)
  have ev: "emitted_events gid now ?h = emitted_events gid now db"
    by (simp add: emitted_events_def)
  have t: "trackTeamChanges F gid now ?c2 =
             (Inr (), ?c2\<lparr>working := append_changes (emitted_events gid now db) ?h\<rparr>)"
    using trackTeamChanges_ok[of ?c2 F gid now] nf ni by (simp add: ev)
  let ?c3 = "?c2\<lparr>working := append_changes (emitted_events gid now db) ?h\<rparr>"
  have b: "beginTransaction F (getConnection db) = (Inr (), \<lparr>committed = db, working = db, in_tx = True\<rparr>)"
    using nf by (simp add: beginTransaction_def getConnection_def)
  have q: "conn_query F CountQuery (count_query gid) \<lparr>committed = db, working = db, in_tx = True\<rparr>
             = Inr (count_query gid db)"
    using nf by (simp add: conn_query_def)
  have i: "conn_execute F InsertHistory (insert_history (new_sample gid now db))
             \<lparr>committed = db, working = db, in_tx = True\<rparr> = (Inr (), ?c2)"
    using nf by (simp add: conn_execute_def)
  have d1: "conn_execute F DeleteHistory (delete_history now ret) ?c3 =
              (Inr (), ?c3\<lparr>working := delete_history now ret (working ?c3)\<rparr>)"
    using nf by (simp add: conn_execute_def)
  have d2: "conn_execute F DeleteChanges (delete_changes now ret)
              (?c3\<lparr>working := delete_history now ret (working ?c3)\<rparr>) =
              (Inr (), ?c3\<lparr>working := collected gid ret now db\<rparr>)"
    using nf by (simp add: conn_execute_def collected_def)
  have cm: "commit F (?c3\<lparr>working := collected gid ret now db\<rparr>) =
              (Inr (), \<lparr>committed = collected gid ret now db, working = collected gid ret now db,
                     in_tx = False\<rparr>)"
    using nf by (simp add: commit_def)
  show ?thesis
    unfolding collect_body_def
    by (simp only: b q i t d1 d2 cm Let_def sample_of_counts prod.case sum.case)
qed

lemma collect_body_fail:
  assumes "\<exists>s \<in> run_statements gid now db - {GetConnection}. F s"
  shows "\<exists>err c. collect_body F gid ret now (getConnection db) = (Inl err, c) \<and> committed c = db"
proof -
  let ?c1 = "\<lparr>committed = db, working = db, in_tx = True\<rparr>"
  let ?h = "insert_history (new_sample gid now db) db"
  let ?c2 = "\<lparr>committed = db, working = ?h, in_tx = True\<rparr>"
  let ?c3 = "?c2\<lparr>working := append_changes (emitted_events gid now db) ?h\<rparr>"
  let ?c4 = "?c3\<lparr>working := delete_history now ret (working ?c3)\<rparr>"
  let ?c5 = "?c4\<lparr>working := delete_changes now ret (working ?c4)\<rparr>"
  have ev: "emitted_events gid now ?h = emitted_events gid now db"
    by (simp add: emitted_events_def)
  consider (start) "F BeginTransaction"
    | (count) "\<not> F BeginTransaction" "F CountQuery"
    | (hist) "\<not> F BeginTransaction" "\<not> F CountQuery" "F InsertHistory"
    | (track) "\<not> F BeginTransaction" "\<not> F CountQuery" "\<not> F InsertHistory"
        "F CurrentQuery \<or> F LastStateQuery \<or>
         (\<exists>e \<in> set (emitted_events gid now db). F (InsertChange (gym_id e)))"
    | (late) "\<not> F BeginTransaction" "\<not> F CountQuery" "\<not> F InsertHistory"
        "\<not> F CurrentQuery" "\<not> F LastStateQuery"
        "\<forall>e \<in> set (emitted_events gid now db). \<not> F (InsertChange (gym_id e))"
        "F DeleteHistory \<or> F DeleteChanges \<or> F Commit"
    using assms unfolding run_statements_def by blast
  then show ?thesis
  proof cases
    case start
    then show ?thesis
      by (simp add: collect_body_def beginTransaction_def getConnection_def)
  next
    case count
    then show ?thesis
      by (simp add: collect_body_def beginTransaction_def getConnection_def conn_query_def)
  next
    case hist
    then show ?thesis
      by (simp add: collect_body_def beginTransaction_def getConnection_def conn_query_def
          conn_execute_def Let_def)
  next
    case track
    have b: "beginTransaction F (getConnection db) = (Inr (), ?c1)"
      using track by (simp add: beginTransaction_def getConnection_def)
    have q: "conn_query F CountQuery (count_query gid) ?c1 = Inr (count_query gid db)"
      using track by (simp add: conn_query_def)
    have i: "conn_execute F InsertHistory (insert_history (new_sample gid now db)) ?c1 = (Inr (), ?c2)"
      using track by (simp add: conn_execute_def)
    from trackTeamChanges_fail[of ?c2 F gid now] track(4)
    obtain err c' where t: "trackTeamChanges F gid now ?c2 = (Inl err, c')" and c': "committed c' = db"
      by (auto simp: ev)
    have "collect_body F gid ret now (getConnection db) = (Inl err, c')"
      unfolding collect_body_def
      by (simp only: b q i t Let_def sample_of_counts prod.case sum.case)
    with c' show ?thesis by blast
  next
    case late
    have b: "beginTransaction F (getConnection db) = (Inr (), ?c1)"
      using late by (simp add: beginTransaction_def getConnection_def)
    have q: "conn_query F CountQuery (count_query gid) ?c1 = Inr (count_query gid db)"
      using late by (simp add: conn_query_def)
    have i: "conn_execute F InsertHistory (insert_history (new_sample gid now db)) ?c1 = (Inr (), ?c2)"
      using late by (simp add: conn_execute_def)
    have t: "trackTeamChanges F gid now ?c2 = (Inr (), ?c3)"
      using trackTeamChanges_ok[of ?c2 F gid now] late by (simp add: ev)
    have rest: "\<exists>err c. (case conn_execute F DeleteHistory (delete_history now ret) ?c3 of
        (Inl e, c) \<Rightarrow> (Inl e, c)
      | (Inr u, c4) \<Rightarrow>
     (case conn_execute F DeleteChanges (delete_changes now ret) c4 of
        (Inl e, c) \<Rightarrow> (Inl e, c)
      | (Inr u, c5) \<Rightarrow> commit F c5)) = (Inl err, c) \<and> committed c = db"
      using late(7) by (auto simp: conn_execute_def commit_def)
    then obtain err c where r: "(case conn_execute F DeleteHistory (delete_history now ret) ?c3 of
        (Inl e, c) \<Rightarrow> (Inl e, c)
      | (Inr u, c4) \<Rightarrow>
     (case conn_execute F DeleteChanges (delete_changes now ret) c4 of
        (Inl e, c) \<Rightarrow> (Inl e, c)
      | (Inr u, c5) \<Rightarrow> commit F c5)) = (Inl err, c)" and c: "committed c = db"
      by blast
    have "collect_body F gid ret now (getConnection db) = (Inl err, c)"
      unfolding collect_body_def
      by (simp only: b q i t r Let_def sample_of_counts prod.case sum.case)
    with c show ?thesis by blast
  qed
qed

lemma collectGymHistory_ok:
  assumes "collector_config e = Inr gid" "\<forall>s \<in> run_statements gid now db. \<not> F s" "\<not> F PoolEnd"
  shows "collectGymHistory e F now db = (Inr (), collected gid (retentionSeconds_of e) now db)"
proof -
  from assms(2) have "\<not> F GetConnection" by (simp add: run_statements_def)
  then show ?thesis
    using assms(1,3) collect_body_ok[OF assms(2)]
    by (simp add: collectGymHistory_def)
qed

lemma collectGymHistory_pool_end:
  assumes "collector_config e = Inr gid" "\<forall>s \<in> run_statements gid now db. \<not> F s" "F PoolEnd"
  shows "collectGymHistory e F now db =
           (Inl (StoreError PoolEnd), collected gid (retentionSeconds_of e) now db)"
proof -
  from assms(2) have "\<not> F GetConnection" by (simp add: run_statements_def)
  then show ?thesis
    using assms(1,3) collect_body_ok[OF assms(2)]
    by (simp add: collectGymHistory_def)
qed

lemma collectGymHistory_fail:
  assumes "collector_config e = Inr gid" "\<exists>s \<in> run_statements gid now db. F s"
  shows "\<exists>err. collectGymHistory e F now db = (Inl err, db)"
proof (cases "F GetConnection")
  case True
  then show ?thesis using assms(1) by (simp add: collectGymHistory_def)
next
  case False
  with assms(2) have "\<exists>s \<in> run_statements gid now db - {GetConnection}. F s" by blast
  from collect_body_fail[OF this, of "retentionSeconds_of e"]
  obtain err c where "collect_body F gid (retentionSeconds_of e) now (getConnection db) = (Inl err, c)"
    "committed c = db" by blast
  then show ?thesis using assms(1) False
    by (simp add: collectGymHistory_def rollback_def Let_def)
qed

lemma collectGymHistory_config_error:
  "collector_config e = Inl err \<Longrightarrow> collectGymHistory e F now db = (Inl err, db)"
  by (simp add: collectGymHistory_def)

lemma change_events_changed_at:
  "e \<in> set (change_events ts rows m) \<Longrightarrow> changed_at e = ts"
  by (induction rows arbitrary: m) (auto split: option.splits if_splits)

lemma retentionSeconds_pos: "1 \<le> retentionSeconds_of e"
  by (simp add: retentionSeconds_of_def Let_def)

lemma collectGymHistory_success:
  assumes "collector_config e = Inr gid" "collectGymHistory e F now db = (Inr (), db')"
  shows "(\<forall>s \<in> run_statements gid now db. \<not> F s) \<and> db' = collected gid (retentionSeconds_of e) now db"
proof -
  have nf: "\<forall>s \<in> run_statements gid now db. \<not> F s"
  proof (rule ccontr)
    assume "\<not> ?thesis"
    then have "\<exists>s \<in> run_statements gid now db. F s" by blast
    from collectGymHistory_fail[OF assms(1) this] assms(2) show False by auto
  qed
  have "\<not> F PoolEnd"
  proof
    assume "F PoolEnd"
    from collectGymHistory_pool_end[OF assms(1) nf this] assms(2) show False by simp
  qed
  with collectGymHistory_ok[OF assms(1) nf] assms(2) nf show ?thesis by simp
qed

lemma collected_tables:
  "gym (collected gid ret now db) = gym db"
  "geofence (collected gid ret now db) = geofence db"
  "gym_history (collected gid ret now db) =
     filter (\<lambda>r. \<not> older_than now ret (timestamp r)) (gym_history db @ [new_sample gid now db])"
  "gym_team_changes (collected gid ret now db) =
     filter (\<lambda>r. \<not> older_than now ret (changed_at r)) (gym_team_changes db @ emitted_events gid now db)"
  by (simp_all add: collected_def delete_changes_def delete_history_def append_changes_def
      insert_history_def)

lemma emitted_kept:
  assumes "1 \<le> ret"
  shows "filter (\<lambda>r. \<not> older_than now ret (changed_at r)) (emitted_events gid now db)
         = emitted_events gid now db"
  using assms
  by (auto simp: filter_id_conv emitted_events_def older_than_def dest: change_events_changed_at)

lemma new_sample_timestamp [simp]: "timestamp (new_sample gid now db) = now"
  by (simp add: new_sample_def Let_def)

lemma run_events_of_gym:
  assumes cfg: "collector_config e = Inr geofenceId"
    and run: "collectGymHistory e F now db = (Inr (), db')"
    and pk: "distinct (map g_id (gym db))"
    and g: "g \<in> set (gym db)" "g_enabled g = 1" "in_geofence db geofenceId g"
  shows "gym_team_changes db' =
        filter (\<lambda>r. \<not> int (changed_at r) < int now - retentionSeconds_of e) (gym_team_changes db)
          @ emitted_events geofenceId now db"
    and "filter (\<lambda>ev. gym_id ev = g_id g) (emitted_events geofenceId now db) =
         (if prior_events (gym_team_changes db) (g_id g) = []
          then [\<lparr>gym_id = g_id g, old_team_id = None, new_team_id = g_team_id g, changed_at = now\<rparr>]
          else if lastOwner (gym_team_changes db) (g_id g) \<noteq> g_team_id g
          then [\<lparr>gym_id = g_id g, old_team_id = lastOwner (gym_team_changes db) (g_id g),
                  new_team_id = g_team_id g, changed_at = now\<rparr>]
          else [])"
proof -
  let ?rows = "current_gyms_query geofenceId db"
  from collectGymHistory_success[OF cfg run]
  have db': "db' = collected geofenceId (retentionSeconds_of e) now db" by simp
  show "gym_team_changes db' =
     filter (\<lambda>r. \<not> int (changed_at r) < int now - retentionSeconds_of e) (gym_team_changes db)
       @ emitted_events geofenceId now db"
    using emitted_kept[OF retentionSeconds_pos, of now e geofenceId db]
    by (simp add: db' collected_tables older_than_def)
  have d: "distinct (map fst ?rows)"
    using pk by (simp add: current_gyms_query_def comp_def distinct_map_filter)
  have mem: "(g_id g, g_team_id g) \<in> set ?rows"
    using g by (auto simp: current_gyms_query_def)
  show "filter (\<lambda>ev. gym_id ev = g_id g) (emitted_events geofenceId now db) =
         (if prior_events (gym_team_changes db) (g_id g) = []
          then [\<lparr>gym_id = g_id g, old_team_id = None, new_team_id = g_team_id g, changed_at = now\<rparr>]
          else if lastOwner (gym_team_changes db) (g_id g) \<noteq> g_team_id g
          then [\<lparr>gym_id = g_id g, old_team_id = lastOwner (gym_team_changes db) (g_id g),
                  new_team_id = g_team_id g, changed_at = now\<rparr>]
          else [])"
    unfolding emitted_events_def change_events_distinct[OF d mem]
    by (simp add: lastStateMap_lastOwner)
qed

lemma example_config: "collector_config example_env = Inr ''fence_1''"
  by (simp add: collector_config_def example_env_def ensure_def ensureIdentifier_collector_def
      word_char_def)

lemma example_retention: "retentionSeconds_of example_env = 604800"
  by (simp add: retentionSeconds_of_def example_env_def)

lemma example_run:
  "collectGymHistory example_env no_faults now db =
     (Inr (), collected ''fence_1'' 604800 now db)"
  using collectGymHistory_ok[OF example_config, of now db no_faults]
  by (simp add: no_faults_def example_retention)

section \<open>The collector: the claims\<close>

text \<open>
  Claim C1.  In every run of the collector that succeeds, for every enabled gym inside the
  fence (the rows of the current query; gym ids are unique, \<open>id\<close> being the key of the
  gym table): the run appends exactly one change row
  \<open>(gym, old = NULL, new = current owner, changed_at = now)\<close> when the store holds no change
  row of the gym; exactly one row \<open>(gym, old = last owner, new = current owner, now)\<close> when
  it holds one and the last known owner differs from the current owner; and none when they
  are equal.
\<close>

theorem collector_change_events:
  assumes cfg: "collector_config e = Inr geofenceId"
    and run: "collectGymHistory e F now db = (Inr (), db')"
    and pk: "distinct (map g_id (gym db))"
    and g: "g \<in> set (gym db)" "g_enabled g = 1" "in_geofence db geofenceId g"
  shows "\<exists>evs.
      gym_team_changes db' =
        filter (\<lambda>r. \<not> int (changed_at r) < int now - retentionSeconds_of e) (gym_team_changes db) @ evs
      \<and> filter (\<lambda>ev. gym_id ev = g_id g) evs =
         (if prior_events (gym_team_changes db) (g_id g) = []
          then [\<lparr>gym_id = g_id g, old_team_id = None, new_team_id = g_team_id g, changed_at = now\<rparr>]
          else if lastOwner (gym_team_changes db) (g_id g) \<noteq> g_team_id g
          then [\<lparr>gym_id = g_id g, old_team_id = lastOwner (gym_team_changes db) (g_id g),
                  new_team_id = g_team_id g, changed_at = now\<rparr>]
          else [])"
  using run_events_of_gym[OF cfg run pk g] by blast

theorem collector_change_events_witness:
  "collectGymHistory example_env no_faults 1700000300 example_store =
     (Inr (), collected ''fence_1'' 604800 1700000300 example_store)
   \<and> (\<exists>evs. gym_team_changes (collected ''fence_1'' 604800 1700000300 example_store) =
        [\<lparr>gym_id = ''gym_a'', old_team_id = Some 1, new_team_id = Some 3, changed_at = 1699990000\<rparr>] @ evs
      \<and> filter (\<lambda>ev. gym_id ev = ''gym_a'') evs =
          [\<lparr>gym_id = ''gym_a'', old_team_id = Some 3, new_team_id = Some 2, changed_at = 1700000300\<rparr>])"
proof -
  let ?g = "example_gym ''gym_a'' (Some 2) None"
  have pk: "distinct (map g_id (gym example_store))"
    by (simp add: example_store_def example_db_def example_gym_def)
  have g: "?g \<in> set (gym example_store)" "g_enabled ?g = 1"
    "in_geofence example_store ''fence_1'' ?g"
    by (simp_all add: example_store_def example_db_def example_gym_def in_geofence_def
        example_fence_def)
  have own: "prior_events (gym_team_changes example_store) ''gym_a'' =
     [\<lparr>gym_id = ''gym_a'', old_team_id = None, new_team_id = Some 1, changed_at = 1690000000\<rparr>,
      \<lparr>gym_id = ''gym_a'', old_team_id = Some 1, new_team_id = Some 3, changed_at = 1699990000\<rparr>]"
    by (simp add: prior_events_def example_store_def example_db_def)
  have last: "lastOwner (gym_team_changes example_store) ''gym_a'' = Some 3"
    by (simp add: lastOwner_def own Let_def)
  have kept: "filter (\<lambda>r. \<not> int (changed_at r) < int 1700000300 - retentionSeconds_of example_env)
       (gym_team_changes example_store) =
     [\<lparr>gym_id = ''gym_a'', old_team_id = Some 1, new_team_id = Some 3, changed_at = 1699990000\<rparr>]"
    by (simp add: example_retention example_store_def example_db_def)
  have gid: "g_id ?g = ''gym_a''" "g_team_id ?g = Some 2"
    by (simp_all add: example_gym_def)
  from collector_change_events[OF example_config example_run[of 1700000300 example_store] pk g]
  show ?thesis
    unfolding kept gid own last by (simp add: example_run)
qed

text \<open>
  Claim C3.  A run is all or nothing.  When the configuration is rejected, or when any
  statement the run issues fails (the connection, BEGIN, a query, the history insert, a
  change insert, a retention delete, COMMIT), the store is the store before the call and
  the exit status is 1.  When no statement fails, the history row, every change row and
  both retention deletes are committed together, and the exit status is 0 (1 only when
  closing the pool afterwards fails).  The store is never left between the two.
\<close>

theorem collector_all_or_nothing:
  assumes run: "collectGymHistory e F now db = (r, db')"
  shows "(\<forall>geofenceId. collector_config e = Inr geofenceId \<longrightarrow>
            ((\<exists>s \<in> run_statements geofenceId now db. F s) \<longrightarrow>
               (\<exists>err. r = Inl err) \<and> exit_status r = 1 \<and> db' = db)
          \<and> ((\<forall>s \<in> run_statements geofenceId now db. \<not> F s) \<longrightarrow>
               db' = collected geofenceId (retentionSeconds_of e) now db
               \<and> (\<not> F PoolEnd \<longrightarrow> r = Inr () \<and> exit_status r = 0)
               \<and> (F PoolEnd \<longrightarrow> r = Inl (StoreError PoolEnd) \<and> exit_status r = 1)))
       \<and> (\<forall>err. collector_config e = Inl err \<longrightarrow> r = Inl err \<and> exit_status r = 1 \<and> db' = db)"
proof (intro conjI allI impI)
  fix geofenceId assume cfg: "collector_config e = Inr geofenceId"
  { assume "\<exists>s \<in> run_statements geofenceId now db. F s"
    from collectGymHistory_fail[OF cfg this] run
    show "\<exists>err. r = Inl err" "exit_status r = 1" "db' = db"
      by (auto simp: exit_status_def) }
  { assume nf: "\<forall>s \<in> run_statements geofenceId now db. \<not> F s"
    show "db' = collected geofenceId (retentionSeconds_of e) now db"
      using collectGymHistory_ok[OF cfg nf] collectGymHistory_pool_end[OF cfg nf] run
      by (cases "F PoolEnd") simp_all
    { assume "\<not> F PoolEnd"
      from collectGymHistory_ok[OF cfg nf this] run
      show "r = Inr ()" "exit_status r = 0" by (simp_all add: exit_status_def) }
    { assume "F PoolEnd"
      from collectGymHistory_pool_end[OF cfg nf this] run
      show "r = Inl (StoreError PoolEnd)" "exit_status r = 1" by (simp_all add: exit_status_def) } }
next
  fix err assume "collector_config e = Inl err"
  with run show "r = Inl err" "exit_status r = 1" "db' = db"
    by (auto simp: collectGymHistory_def exit_status_def)
qed

theorem collector_all_or_nothing_witness:
  "snd (collectGymHistory example_env (fault_at DeleteChanges) 1700000300 example_store) = example_store
   \<and> exit_status (fst (collectGymHistory example_env (fault_at DeleteChanges) 1700000300 example_store)) = 1
   \<and> collectGymHistory example_env no_faults 1700000300 example_store
       = (Inr (), collected ''fence_1'' 604800 1700000300 example_store)"
proof -
  let ?run = "collectGymHistory example_env (fault_at DeleteChanges) 1700000300 example_store"
  let ?ok = "collectGymHistory example_env no_faults 1700000300 example_store"
  have f: "\<exists>s \<in> run_statements ''fence_1'' 1700000300 example_store. fault_at DeleteChanges s"
    by (simp add: run_statements_def fault_at_def)
  have a: "?run = (fst ?run, snd ?run)" by simp
  from collector_all_or_nothing[OF a] example_config f
  have 1: "snd ?run = example_store" "exit_status (fst ?run) = 1" by blast+
  have nf: "\<forall>s \<in> run_statements ''fence_1'' 1700000300 example_store. \<not> no_faults s"
    "\<not> no_faults PoolEnd"
    by (simp_all add: no_faults_def)
  have b: "?ok = (fst ?ok, snd ?ok)" by simp
  from collector_all_or_nothing[OF b] example_config nf
  have "fst ?ok = Inr ()" "snd ?ok = collected ''fence_1'' (retentionSeconds_of example_env) 1700000300 example_store"
    by blast+
  then have "?ok = (Inr (), collected ''fence_1'' 604800 1700000300 example_store)"
    by (simp add: example_retention prod_eq_iff)
  with 1 show ?thesis by simp
qed



section \<open>First observations over several runs\<close>

text \<open>\<open>run_at\<close> is a run without failures under the example configuration (retention: 7 days).\<close>

lemma run_at_collected: "run_at now db = collected ''fence_1'' 604800 now db"
  by (simp add: run_at_def example_run)

lemma lifetime_run1:
  "run_at 1700000000 lifetime_store =
     example_db [example_gym ''gym_a'' (Some 1) None]
       [\<lparr>timestamp = 1700000000, team_mystic = 1, team_valor = 0, team_instinct = 0, total_gyms = 1\<rparr>]
       [\<lparr>gym_id = ''gym_a'', old_team_id = None, new_team_id = Some 1, changed_at = 1700000000\<rparr>]"
  by (simp add: run_at_collected collected_def lifetime_store_def example_db_def example_gym_def
      emitted_events_def current_gyms_query_def last_state_query_def latest_changed_def
      lastStateMap_of_def new_sample_def in_geofence_def example_fence_def
      delete_changes_def delete_history_def append_changes_def insert_history_def older_than_def)

lemmas run_eval =
  run_at_collected collected_def example_db_def example_gym_def
  emitted_events_def current_gyms_query_def last_state_query_def latest_changed_def
  lastStateMap_of_def new_sample_def in_geofence_def example_fence_def sql_MAX_def
  delete_changes_def delete_history_def append_changes_def insert_history_def older_than_def

lemma lifetime_run2:
  "run_at 1700604900 (run_at 1700000000 lifetime_store) =
     example_db [example_gym ''gym_a'' (Some 1) None]
       [\<lparr>timestamp = 1700604900, team_mystic = 1, team_valor = 0, team_instinct = 0, total_gyms = 1\<rparr>]
       []"
  unfolding lifetime_run1 by (simp add: run_eval)

lemma lifetime_run3:
  "run_at 1700605200 (run_at 1700604900 (run_at 1700000000 lifetime_store)) =
     example_db [example_gym ''gym_a'' (Some 1) None]
       [\<lparr>timestamp = 1700604900, team_mystic = 1, team_valor = 0, team_instinct = 0, total_gyms = 1\<rparr>,
        \<lparr>timestamp = 1700605200, team_mystic = 1, team_valor = 0, team_instinct = 0, total_gyms = 1\<rparr>]
       [\<lparr>gym_id = ''gym_a'', old_team_id = None, new_team_id = Some 1, changed_at = 1700605200\<rparr>]"
  unfolding lifetime_run2 by (simp add: run_eval)

text \<open>
  Claim C2, as stated, fails.  One gym, owned by team 1 throughout, and three runs with the
  default retention of seven days: the first run records the first observation; the second,
  more than seven days later, records nothing and its retention sweep deletes that row; the
  third finds no change row of the gym and records a first observation again.
\<close>

theorem first_observation_repeats:
  "gym_team_changes (run_at 1700000000 lifetime_store) =
     [\<lparr>gym_id = ''gym_a'', old_team_id = None, new_team_id = Some 1, changed_at = 1700000000\<rparr>]
   \<and> gym_team_changes (run_at 1700604900 (run_at 1700000000 lifetime_store)) = []
   \<and> gym_team_changes (run_at 1700605200 (run_at 1700604900 (run_at 1700000000 lifetime_store))) =
     [\<lparr>gym_id = ''gym_a'', old_team_id = None, new_team_id = Some 1, changed_at = 1700605200\<rparr>]"
proof (intro conjI)
  show "gym_team_changes (run_at 1700000000 lifetime_store) =
     [\<lparr>gym_id = ''gym_a'', old_team_id = None, new_team_id = Some 1, changed_at = 1700000000\<rparr>]"
    by (subst lifetime_run1) (simp add: example_db_def)
  show "gym_team_changes (run_at 1700604900 (run_at 1700000000 lifetime_store)) = []"
    by (subst lifetime_run2) (simp add: example_db_def)
  show "gym_team_changes (run_at 1700605200 (run_at 1700604900 (run_at 1700000000 lifetime_store))) =
     [\<lparr>gym_id = ''gym_a'', old_team_id = None, new_team_id = Some 1, changed_at = 1700605200\<rparr>]"
    by (subst lifetime_run3) (simp add: example_db_def)
qed

lemma filter_conj_filter: "filter (\<lambda>x. P x \<and> Q x) xs = filter Q (filter P xs)"
  by (induction xs) auto

text \<open>
  Claim C2, amended.  In every run that succeeds, for every gym of the current query: the
  run appends one change row with \<open>old_team_id = NULL\<close> when the store holds no change row
  of the gym (the first observation, whatever the current owner, none included; and again
  once the retention sweep has removed all its rows), or when its last known owner is NULL
  and its current owner is not; in every other case it appends none.
\<close>

theorem first_observation_rule:
  assumes cfg: "collector_config e = Inr geofenceId"
    and run: "collectGymHistory e F now db = (Inr (), db')"
    and pk: "distinct (map g_id (gym db))"
    and g: "g \<in> set (gym db)" "g_enabled g = 1" "in_geofence db geofenceId g"
  shows "\<exists>evs.
      gym_team_changes db' =
        filter (\<lambda>r. \<not> int (changed_at r) < int now - retentionSeconds_of e) (gym_team_changes db) @ evs
      \<and> filter (\<lambda>ev. gym_id ev = g_id g \<and> old_team_id ev = None) evs =
         (if prior_events (gym_team_changes db) (g_id g) = []
             \<or> (lastOwner (gym_team_changes db) (g_id g) = None \<and> g_team_id g \<noteq> None)
          then [\<lparr>gym_id = g_id g, old_team_id = None, new_team_id = g_team_id g, changed_at = now\<rparr>]
          else [])"
proof -
  note r = run_events_of_gym[OF cfg run pk g]
  have "filter (\<lambda>ev. gym_id ev = g_id g \<and> old_team_id ev = None) (emitted_events geofenceId now db) =
         (if prior_events (gym_team_changes db) (g_id g) = []
             \<or> (lastOwner (gym_team_changes db) (g_id g) = None \<and> g_team_id g \<noteq> None)
          then [\<lparr>gym_id = g_id g, old_team_id = None, new_team_id = g_team_id g, changed_at = now\<rparr>]
          else [])"
    unfolding filter_conj_filter r(2) by auto
  with r(1) show ?thesis by blast
qed

theorem first_observation_rule_witness:
  "collectGymHistory example_env no_faults 1700605200
       (run_at 1700604900 (run_at 1700000000 lifetime_store))
     = (Inr (), run_at 1700605200 (run_at 1700604900 (run_at 1700000000 lifetime_store)))
   \<and> prior_events (gym_team_changes (run_at 1700604900 (run_at 1700000000 lifetime_store))) ''gym_a'' = []
   \<and> (\<exists>evs. gym_team_changes (run_at 1700605200 (run_at 1700604900 (run_at 1700000000 lifetime_store)))
           = [] @ evs
        \<and> filter (\<lambda>ev. gym_id ev = ''gym_a'' \<and> old_team_id ev = None) evs =
           [\<lparr>gym_id = ''gym_a'', old_team_id = None, new_team_id = Some 1, changed_at = 1700605200\<rparr>])"
proof -
  let ?db = "run_at 1700604900 (run_at 1700000000 lifetime_store)"
  let ?g = "example_gym ''gym_a'' (Some 1) None"
  have run: "collectGymHistory example_env no_faults 1700605200 ?db = (Inr (), run_at 1700605200 ?db)"
    by (simp add: example_run run_at_collected)
  have tbl: "gym_team_changes ?db = []" "gym ?db = [?g]" "geofence ?db = example_fence"
    by (simp_all add: lifetime_run2 example_db_def)
  have pk: "distinct (map g_id (gym ?db))" by (simp add: tbl)
  have g: "?g \<in> set (gym ?db)" "g_enabled ?g = 1" "in_geofence ?db ''fence_1'' ?g"
    by (simp_all add: tbl in_geofence_def example_gym_def example_fence_def)
  have gid: "g_id ?g = ''gym_a''" "g_team_id ?g = Some 1" by (simp_all add: example_gym_def)
  have own: "prior_events (gym_team_changes ?db) ''gym_a'' = []"
    by (simp add: tbl prior_events_def)
  from first_observation_rule[OF example_config run pk g]
  show ?thesis
    unfolding gid tbl(1) by (simp add: run prior_events_def)
qed

section \<open>The history request: chart data\<close>

lemma fetchGymHistory_try_ok:
  assumes "\<not> F HistoryQuery" "\<not> F LatestQuery" "\<not> F ContestedQuery" "\<not> F RecentQuery"
  shows "fetchGymHistory_try F now db key geofenceId = Inr (response_of now db key geofenceId)"
  using assms
  by (simp add: fetchGymHistory_try_def response_of_def pool_execute_def Let_def)

lemma fetchGymHistory_ok:
  assumes "history_config e = Inr geofenceId"
    and "\<not> F HistoryQuery" "\<not> F LatestQuery" "\<not> F ContestedQuery" "\<not> F RecentQuery"
  shows "fetchGymHistory e F now db p = (response_of now db (period_key p) geofenceId, [])"
  using assms(1) fetchGymHistory_try_ok[OF assms(2-5)]
  by (simp add: fetchGymHistory_def Let_def)

lemma Math_round_round: "Math_round x = round x"
  by (simp add: Math_round_def round_def)

lemma floor_rat_numeral_div: "\<lfloor>(numeral a :: rat) / numeral b\<rfloor> = numeral a div numeral b"
  using floor_divide_of_int_eq[of "numeral a" "numeral b", where ?'a = rat] by simp

lemma sql_AVG_mean: "xs \<noteq> [] \<Longrightarrow> sql_AVG xs = Some (mean xs)"
  by (simp add: sql_AVG_def mean_def)

lemma sorted_list_of_set_image_list:
  "sorted_list_of_set (f ` set xs) = sort (remdups (map f xs))"
  using sorted_list_of_set_sort_remdups[of "map f xs"] by simp

lemma chart_point_of_group:
  assumes "grp \<noteq> []"
  shows "buildChartData
           [\<lparr>hr_bucket = k, hr_mystic = sql_AVG (map team_mystic grp),
             hr_valor = sql_AVG (map team_valor grp),
             hr_instinct = sql_AVG (map team_instinct grp),
             hr_total = sql_AVG (map total_gyms grp)\<rparr>] =
         [\<lparr>cd_time = int k * 1000,
           cd_mystic = round (mean (map team_mystic grp)),
           cd_valor = round (mean (map team_valor grp)),
           cd_instinct = round (mean (map team_instinct grp)),
           cd_total = max (round (mean (map total_gyms grp)))
                          (round (mean (map team_mystic grp)) + round (mean (map team_valor grp))
                           + round (mean (map team_instinct grp)))\<rparr>]"
  using assms
  by (simp add: buildChartData_def Let_def sql_AVG_mean rat_or_zero_def Math_round_round)

text \<open>
  Claim C4.  When the configuration is valid and no read fails, \<open>chartData\<close> has exactly
  one point for every bucket \<open>floor(timestamp / bucket) * bucket\<close> that holds a sample with
  \<open>timestamp >= now - duration\<close>, in ascending order of the bucket start and none for a
  bucket without samples; the point's time is the bucket start times 1000, its faction
  values are the averages over the bucket's samples rounded to the nearest integer, and
  its total is the greater of the rounded average total and the sum of the three rounded
  faction values.
\<close>

theorem history_chart_data:
  assumes cfg: "history_config e = Inr geofenceId"
    and reads: "\<not> F HistoryQuery" "\<not> F LatestQuery" "\<not> F ContestedQuery" "\<not> F RecentQuery"
  shows "r_chartData (fst (fetchGymHistory e F now db p)) =
     (let cfgp = PERIOD_CONFIG (period_key p);
          sel = filter (\<lambda>s. int now - int (duration cfgp) \<le> int (timestamp s)) (gym_history db);
          bucket_of = (\<lambda>s. timestamp s div bucket cfgp * bucket cfgp)
      in map (\<lambda>k.
            let grp = filter (\<lambda>s. bucket_of s = k) sel;
                m = round (mean (map team_mystic grp));
                v = round (mean (map team_valor grp));
                i = round (mean (map team_instinct grp))
            in \<lparr>cd_time = int k * 1000, cd_mystic = m, cd_valor = v, cd_instinct = i,
                cd_total = max (round (mean (map total_gyms grp))) (m + v + i)\<rparr>)
          (sorted_list_of_set (bucket_of ` set sel)))"
proof -
  let ?cfg = "PERIOD_CONFIG (period_key p)"
  let ?sel = "filter (\<lambda>s. int now - int (duration ?cfg) \<le> int (timestamp s)) (gym_history db)"
  let ?bk = "\<lambda>s. timestamp s div bucket ?cfg * bucket ?cfg"
  let ?ks = "sorted_list_of_set (?bk ` set ?sel)"
  let ?row = "\<lambda>k. \<lparr>hr_bucket = k,
       hr_mystic = sql_AVG (map team_mystic (filter (\<lambda>s. ?bk s = k) ?sel)),
       hr_valor = sql_AVG (map team_valor (filter (\<lambda>s. ?bk s = k) ?sel)),
       hr_instinct = sql_AVG (map team_instinct (filter (\<lambda>s. ?bk s = k) ?sel)),
       hr_total = sql_AVG (map total_gyms (filter (\<lambda>s. ?bk s = k) ?sel))\<rparr>"
  have q: "history_query now (bucket ?cfg) (duration ?cfg) db = map ?row ?ks"
    unfolding history_query_def Let_def in_window_def bucket_start_def
      sorted_list_of_set_image_list by (rule refl)
  have ne: "filter (\<lambda>s. ?bk s = k) ?sel \<noteq> []" if "k \<in> set ?ks" for k
    using that by (auto simp: filter_empty_conv)
  have "buildChartData (map ?row ?ks) = map (\<lambda>k. hd (buildChartData [?row k])) ?ks"
    by (simp add: buildChartData_def)
  also have "\<dots> = map (\<lambda>k.
            let grp = filter (\<lambda>s. ?bk s = k) ?sel;
                m = round (mean (map team_mystic grp));
                v = round (mean (map team_valor grp));
                i = round (mean (map team_instinct grp))
            in \<lparr>cd_time = int k * 1000, cd_mystic = m, cd_valor = v, cd_instinct = i,
                cd_total = max (round (mean (map total_gyms grp))) (m + v + i)\<rparr>) ?ks"
  proof (rule map_cong[OF refl])
    fix k assume k: "k \<in> set ?ks"
    show "hd (buildChartData [?row k]) =
           (let grp = filter (\<lambda>s. ?bk s = k) ?sel;
                m = round (mean (map team_mystic grp));
                v = round (mean (map team_valor grp));
                i = round (mean (map team_instinct grp))
            in \<lparr>cd_time = int k * 1000, cd_mystic = m, cd_valor = v, cd_instinct = i,
                cd_total = max (round (mean (map total_gyms grp))) (m + v + i)\<rparr>)"
      unfolding chart_point_of_group[OF ne[OF k]] Let_def by simp
  qed
  finally show ?thesis
    by (simp add: fetchGymHistory_ok[OF cfg reads] response_of_def Let_def q)
qed

lemma example_history_config: "history_config example_env = Inr ''fence_1''"
  by (simp add: history_config_def example_env_def ensureIdentifier_def word_char_def)

lemma no_faults_simp [simp]: "\<not> no_faults s"
  by (simp add: no_faults_def)

lemma floor_one_half: "\<lfloor>(1::rat) / 2\<rfloor> = 0"
  using floor_divide_of_int_eq[of 1 2, where ?'a = rat] by simp

theorem history_chart_data_witness:
  "history_config example_env = Inr ''fence_1''
   \<and> r_chartData (fst (fetchGymHistory example_env no_faults 1700003000 chart_store ''6h'')) =
       [\<lparr>cd_time = 1700000100000, cd_mystic = 4, cd_valor = 5, cd_instinct = 2, cd_total = 20\<rparr>,
        \<lparr>cd_time = 1700001000000, cd_mystic = 5, cd_valor = 5, cd_instinct = 5, cd_total = 15\<rparr>]"
proof -
  let ?rows = "[\<lparr>timestamp = 1700000100, team_mystic = 3, team_valor = 5, team_instinct = 2, total_gyms = 10\<rparr>,
        \<lparr>timestamp = 1700001000, team_mystic = 5, team_valor = 5, team_instinct = 5, total_gyms = 12\<rparr>,
        \<lparr>timestamp = 1700000200, team_mystic = 4, team_valor = 5, team_instinct = 2, total_gyms = 20\<rparr>,
        \<lparr>timestamp = 1700000399, team_mystic = 4, team_valor = 6, team_instinct = 2, total_gyms = 31\<rparr>]"
  let ?bk = "\<lambda>s. timestamp s div bucket (PERIOD_CONFIG P6h) * bucket (PERIOD_CONFIG P6h)"
  have k: "period_key ''6h'' = P6h" by (simp add: period_key_def)
  have sel: "filter (\<lambda>s. int 1700003000 - int (duration (PERIOD_CONFIG P6h)) \<le> int (timestamp s))
               (gym_history chart_store) = ?rows"
    by (simp add: chart_store_def example_db_def)
  have ks: "sorted_list_of_set (?bk ` set ?rows) = [1700000100, 1700001000]"
    unfolding sorted_list_of_set_image_list by simp
  have g1: "filter (\<lambda>s. ?bk s = 1700000100) ?rows =
       [\<lparr>timestamp = 1700000100, team_mystic = 3, team_valor = 5, team_instinct = 2, total_gyms = 10\<rparr>,
        \<lparr>timestamp = 1700000200, team_mystic = 4, team_valor = 5, team_instinct = 2, total_gyms = 20\<rparr>,
        \<lparr>timestamp = 1700000399, team_mystic = 4, team_valor = 6, team_instinct = 2, total_gyms = 31\<rparr>]"
    by simp
  have g2: "filter (\<lambda>s. ?bk s = 1700001000) ?rows =
       [\<lparr>timestamp = 1700001000, team_mystic = 5, team_valor = 5, team_instinct = 5, total_gyms = 12\<rparr>]"
    by simp
  have r: "round (mean [3, 4, 4]) = 4" "round (mean [5, 5, 6]) = 5" "round (mean [2, 2, 2]) = 2"
    "round (mean [10, 20, 31]) = 20" "round (mean [5]) = 5" "round (mean [12]) = 12"
    by (simp_all add: mean_def round_def floor_rat_numeral_div floor_one_half)
  note t = history_chart_data[OF example_history_config, of no_faults 1700003000 chart_store "''6h''",
      unfolded k Let_def sel ks list.map g1 g2]
  show ?thesis
    using t by (simp add: example_history_config r)
qed

section \<open>The history request: current counts\<close>

lemma Math_round_of_nat [simp]: "Math_round (of_nat n) = int n"
  by (simp add: Math_round_round)

lemma latest_query_Nil: "gym_history db = [] \<Longrightarrow> latest_query db = []"
  by (simp add: latest_query_def)

lemma latest_query_max:
  assumes "gym_history db \<noteq> []"
  shows "\<exists>latest. latest_query db = [latest] \<and> latest \<in> set (gym_history db)
           \<and> (\<forall>s \<in> set (gym_history db). timestamp s \<le> timestamp latest)"
proof -
  let ?f = "\<lambda>r. - int (timestamp r)"
  let ?ys = "sort_key ?f (gym_history db)"
  from assms have "?ys \<noteq> []" by (metis length_0_conv length_sort)
  then obtain y ys where ys: "?ys = y # ys" by (cases ?ys) auto
  have s: "sorted (map ?f ?ys)" by (rule sorted_sort_key)
  have set: "set ?ys = set (gym_history db)" by simp
  have "\<forall>z \<in> set ?ys. ?f y \<le> ?f z"
    using s unfolding ys by auto
  then have "\<forall>s \<in> set (gym_history db). timestamp s \<le> timestamp y"
    unfolding set by auto
  moreover have "y \<in> set (gym_history db)" using set ys by (metis list.set_intros(1))
  moreover have "latest_query db = [y]" by (simp add: latest_query_def ys)
  ultimately show ?thesis by blast
qed

text \<open>
  Claim C5.  When the configuration is valid and no read fails, \<open>currentCounts\<close> and
  \<open>lastUpdated\<close> come from a row of gym_history whose timestamp is the greatest of the whole
  table, with the total the greater of the recorded total and the sum of the three counts;
  they are all zero and the epoch when the table is empty; and they are the same for every
  requested period.
\<close>

theorem current_counts_latest:
  assumes cfg: "history_config e = Inr geofenceId"
    and reads: "\<not> F HistoryQuery" "\<not> F LatestQuery" "\<not> F ContestedQuery" "\<not> F RecentQuery"
  shows "(gym_history db = [] \<longrightarrow>
            r_currentCounts (fst (fetchGymHistory e F now db p)) =
              \<lparr>cc_mystic = 0, cc_valor = 0, cc_instinct = 0, cc_total = 0\<rparr>
            \<and> r_lastUpdated (fst (fetchGymHistory e F now db p)) = 0)
       \<and> (gym_history db \<noteq> [] \<longrightarrow>
            (\<exists>latest \<in> set (gym_history db).
               (\<forall>s \<in> set (gym_history db). timestamp s \<le> timestamp latest)
               \<and> r_currentCounts (fst (fetchGymHistory e F now db p)) =
                   \<lparr>cc_mystic = int (team_mystic latest), cc_valor = int (team_valor latest),
                    cc_instinct = int (team_instinct latest),
                    cc_total = max (int (total_gyms latest))
                                 (int (team_mystic latest) + int (team_valor latest)
                                  + int (team_instinct latest))\<rparr>
               \<and> r_lastUpdated (fst (fetchGymHistory e F now db p)) = int (timestamp latest) * 1000))
       \<and> r_currentCounts (fst (fetchGymHistory e F now db p')) =
           r_currentCounts (fst (fetchGymHistory e F now db p))
       \<and> r_lastUpdated (fst (fetchGymHistory e F now db p')) =
           r_lastUpdated (fst (fetchGymHistory e F now db p))"
proof -
  have R: "r_currentCounts (fst (fetchGymHistory e F now db q)) = currentCounts_of (latest_query db)"
    "r_lastUpdated (fst (fetchGymHistory e F now db q)) = lastUpdated_of (latest_query db)" for q
    by (simp_all add: fetchGymHistory_ok[OF cfg reads] response_of_def Let_def)
  have empty: "gym_history db = [] \<Longrightarrow>
      currentCounts_of (latest_query db) = \<lparr>cc_mystic = 0, cc_valor = 0, cc_instinct = 0, cc_total = 0\<rparr>
      \<and> lastUpdated_of (latest_query db) = 0"
    by (simp add: latest_query_Nil currentCounts_of_def lastUpdated_of_def)
  have some: "\<exists>latest \<in> set (gym_history db).
               (\<forall>s \<in> set (gym_history db). timestamp s \<le> timestamp latest)
               \<and> currentCounts_of (latest_query db) =
                   \<lparr>cc_mystic = int (team_mystic latest), cc_valor = int (team_valor latest),
                    cc_instinct = int (team_instinct latest),
                    cc_total = max (int (total_gyms latest))
                                 (int (team_mystic latest) + int (team_valor latest)
                                  + int (team_instinct latest))\<rparr>
               \<and> lastUpdated_of (latest_query db) = int (timestamp latest) * 1000"
    if "gym_history db \<noteq> []"
  proof -
    from latest_query_max[OF that] obtain latest where l: "latest_query db = [latest]"
      "latest \<in> set (gym_history db)" "\<forall>s \<in> set (gym_history db). timestamp s \<le> timestamp latest"
      by blast
    show ?thesis
      by (rule bexI[OF _ l(2)]) (simp add: l currentCounts_of_def lastUpdated_of_def Let_def)
  qed
  show ?thesis unfolding R using empty some by blast
qed

theorem current_counts_latest_witness:
  "history_config example_env = Inr ''fence_1''
   \<and> r_currentCounts (fst (fetchGymHistory example_env no_faults 1700003000 chart_store ''6h'')) =
       \<lparr>cc_mystic = 5, cc_valor = 5, cc_instinct = 5, cc_total = 15\<rparr>
   \<and> r_lastUpdated (fst (fetchGymHistory example_env no_faults 1700003000 chart_store ''6h''))
       = 1700001000000
   \<and> r_currentCounts (fst (fetchGymHistory example_env no_faults 1700003000 chart_store ''7d'')) =
       r_currentCounts (fst (fetchGymHistory example_env no_faults 1700003000 chart_store ''6h''))"
proof -
  note t = current_counts_latest[OF example_history_config, of no_faults chart_store 1700003000
      "''6h''" "''7d''", simplified]
  have ne: "gym_history chart_store \<noteq> []" by (simp add: chart_store_def example_db_def)
  from t ne obtain latest where l: "latest \<in> set (gym_history chart_store)"
    "\<forall>s \<in> set (gym_history chart_store). timestamp s \<le> timestamp latest"
    and c: "r_currentCounts (fst (fetchGymHistory example_env no_faults 1700003000 chart_store ''6h'')) =
                   \<lparr>cc_mystic = int (team_mystic latest), cc_valor = int (team_valor latest),
                    cc_instinct = int (team_instinct latest),
                    cc_total = max (int (total_gyms latest))
                                 (int (team_mystic latest) + int (team_valor latest)
                                  + int (team_instinct latest))\<rparr>"
    and u: "r_lastUpdated (fst (fetchGymHistory example_env no_faults 1700003000 chart_store ''6h''))
              = int (timestamp latest) * 1000"
    by blast
  from l have "latest =
     \<lparr>timestamp = 1700001000, team_mystic = 5, team_valor = 5, team_instinct = 5, total_gyms = 12\<rparr>"
    by (auto simp: chart_store_def example_db_def)
  with c u t show ?thesis by (simp add: example_history_config)
qed

section \<open>The history request: contested gyms\<close>










section \<open>Failed reads\<close>

lemma example_snapshot_config: "snapshot_config example_env = Inr ''fence_1''"
  by (simp add: snapshot_config_def example_env_def ensureIdentifier_def word_char_def)

lemma example_stats_config: "stats_config example_env = Inr ''fence_1''"
  by (simp add: stats_config_def example_env_def ensureIdentifier_def word_char_def)

text \<open>
  Claim C7.  A failed read never reaches the caller: \<open>fetchGymHistory\<close> returns the empty
  history (no chart data, no contested gyms, zero counts, the epoch) when the history, the
  latest or the contested query fails, when the recent-changes query is issued and fails,
  and in general whenever its \<open>try\<close> block throws; \<open>fetchGymSnapshot\<close> returns the empty
  snapshot when its query fails; \<open>fetchDefenderStats\<close> returns the default stats when its
  query fails.
\<close>

theorem read_failure_empty_shape:
  "(F HistoryQuery \<or> F LatestQuery \<or> F ContestedQuery \<longrightarrow>
      fst (fetchGymHistory e F now db p) =
        \<lparr>r_period = period_key p, r_chartData = [], r_contestedGyms = [],
         r_currentCounts = \<lparr>cc_mystic = 0, cc_valor = 0, cc_instinct = 0, cc_total = 0\<rparr>,
         r_lastUpdated = 0\<rparr>)
   \<and> (\<forall>geofenceId err.
        history_config e = Inr geofenceId
        \<and> fetchGymHistory_try F now db (period_key p) geofenceId = Inl err \<longrightarrow>
      fst (fetchGymHistory e F now db p) =
        \<lparr>r_period = period_key p, r_chartData = [], r_contestedGyms = [],
         r_currentCounts = \<lparr>cc_mystic = 0, cc_valor = 0, cc_instinct = 0, cc_total = 0\<rparr>,
         r_lastUpdated = 0\<rparr>)
   \<and> (\<forall>geofenceId.
        history_config e = Inr geofenceId \<and> F RecentQuery
        \<and> contested_query now (duration (PERIOD_CONFIG (period_key p))) geofenceId db \<noteq> [] \<longrightarrow>
      fst (fetchGymHistory e F now db p) =
        \<lparr>r_period = period_key p, r_chartData = [], r_contestedGyms = [],
         r_currentCounts = \<lparr>cc_mystic = 0, cc_valor = 0, cc_instinct = 0, cc_total = 0\<rparr>,
         r_lastUpdated = 0\<rparr>)
   \<and> (F SnapshotQuery \<longrightarrow>
      fst (fetchGymSnapshot e js F now db) =
        \<lparr>ga_mystic = [], ga_valor = [], ga_instinct = [],
         ga_counts_mystic = 0, ga_counts_valor = 0, ga_counts_instinct = 0\<rparr>)
   \<and> (F DefenderQuery \<longrightarrow>
      fst (fetchDefenderStats e js F loaded now db) =
        \<lparr>sd_teams = [], sd_total_defenders_all_teams = 0, sd_timestamp = loaded\<rparr>)"
proof (intro conjI allI impI)
  assume "F HistoryQuery \<or> F LatestQuery \<or> F ContestedQuery"
  then have thrown: "\<exists>err. fetchGymHistory_try F now db (period_key p) g = Inl err" for g
    by (auto simp: fetchGymHistory_try_def pool_execute_def Let_def)
  show "fst (fetchGymHistory e F now db p) =
        \<lparr>r_period = period_key p, r_chartData = [], r_contestedGyms = [],
         r_currentCounts = \<lparr>cc_mystic = 0, cc_valor = 0, cc_instinct = 0, cc_total = 0\<rparr>,
         r_lastUpdated = 0\<rparr>"
  proof (cases "history_config e")
    case (Inl a)
    then show ?thesis by (simp add: fetchGymHistory_def Let_def empty_history_def)
  next
    case (Inr g)
    from thrown[of g] obtain err where "fetchGymHistory_try F now db (period_key p) g = Inl err"
      by blast
    with Inr show ?thesis by (simp add: fetchGymHistory_def Let_def empty_history_def)
  qed
next
  fix geofenceId err
  assume "history_config e = Inr geofenceId
        \<and> fetchGymHistory_try F now db (period_key p) geofenceId = Inl err"
  then show "fst (fetchGymHistory e F now db p) =
        \<lparr>r_period = period_key p, r_chartData = [], r_contestedGyms = [],
         r_currentCounts = \<lparr>cc_mystic = 0, cc_valor = 0, cc_instinct = 0, cc_total = 0\<rparr>,
         r_lastUpdated = 0\<rparr>"
    by (simp add: fetchGymHistory_def Let_def empty_history_def)
next
  fix geofenceId
  assume a: "history_config e = Inr geofenceId \<and> F RecentQuery
        \<and> contested_query now (duration (PERIOD_CONFIG (period_key p))) geofenceId db \<noteq> []"
  then have "\<exists>err. fetchGymHistory_try F now db (period_key p) geofenceId = Inl err"
    by (auto simp: fetchGymHistory_try_def pool_execute_def Let_def)
  with a show "fst (fetchGymHistory e F now db p) =
        \<lparr>r_period = period_key p, r_chartData = [], r_contestedGyms = [],
         r_currentCounts = \<lparr>cc_mystic = 0, cc_valor = 0, cc_instinct = 0, cc_total = 0\<rparr>,
         r_lastUpdated = 0\<rparr>"
    by (auto simp: fetchGymHistory_def Let_def empty_history_def)
next
  assume "F SnapshotQuery"
  then show "fst (fetchGymSnapshot e js F now db) =
        \<lparr>ga_mystic = [], ga_valor = [], ga_instinct = [],
         ga_counts_mystic = 0, ga_counts_valor = 0, ga_counts_instinct = 0\<rparr>"
    by (cases "snapshot_config e")
       (simp_all add: fetchGymSnapshot_def pool_execute_def DEFAULT_GYM_RESULT_def Let_def)
next
  assume "F DefenderQuery"
  then show "fst (fetchDefenderStats e js F loaded now db) =
        \<lparr>sd_teams = [], sd_total_defenders_all_teams = 0, sd_timestamp = loaded\<rparr>"
    by (cases "stats_config e")
       (simp_all add: fetchDefenderStats_def pool_execute_def DEFAULT_STATS_def)
qed

theorem read_failure_empty_shape_witness:
  "fst (fetchGymHistory example_env (fault_at LatestQuery) 1700003000 chart_store ''6h'') =
        \<lparr>r_period = P6h, r_chartData = [], r_contestedGyms = [],
         r_currentCounts = \<lparr>cc_mystic = 0, cc_valor = 0, cc_instinct = 0, cc_total = 0\<rparr>,
         r_lastUpdated = 0\<rparr>
   \<and> fst (fetchGymSnapshot example_env example_js (fault_at SnapshotQuery) 1700000100
             (payload_store ''[]'')) =
        \<lparr>ga_mystic = [], ga_valor = [], ga_instinct = [],
         ga_counts_mystic = 0, ga_counts_valor = 0, ga_counts_instinct = 0\<rparr>
   \<and> fst (fetchDefenderStats example_env example_js (fault_at DefenderQuery) 1690000000 1700000100
             (payload_store ''[]'')) =
        \<lparr>sd_teams = [], sd_total_defenders_all_teams = 0, sd_timestamp = 1690000000\<rparr>"
  using read_failure_empty_shape[where F="fault_at LatestQuery" and e=example_env
      and now=1700003000 and db=chart_store and p="''6h''"]
    read_failure_empty_shape[where F="fault_at SnapshotQuery" and e=example_env
      and now=1700000100 and db="payload_store ''[]''" and js=example_js]
    read_failure_empty_shape[where F="fault_at DefenderQuery" and e=example_env
      and now=1700000100 and db="payload_store ''[]''" and js=example_js and loaded=1690000000]
  by (simp add: fault_at_def period_key_def)

section \<open>The snapshot and the defender payloads\<close>

lemma snapshot_step_inv:
  "snapshot_inv (fst acc) \<Longrightarrow> snapshot_inv (fst (snapshot_step js now gymRow acc))"
  by (simp add: snapshot_step_def snapshot_inv_def Let_def gym_team_id_def)

lemma snapshot_fold_inv:
  "snapshot_inv (fst acc) \<Longrightarrow> snapshot_inv (fst (fold (snapshot_step js now) rows acc))"
  by (induction rows arbitrary: acc) (simp_all add: snapshot_step_inv)

lemma snapshot_result_inv: "snapshot_inv (fst (fetchGymSnapshot e js F now db))"
proof -
  have d: "snapshot_inv DEFAULT_GYM_RESULT"
    by (simp add: snapshot_inv_def DEFAULT_GYM_RESULT_def)
  have i: "snapshot_inv (fst (\<lparr>ga_mystic = [], ga_valor = [], ga_instinct = [],
                   ga_counts_mystic = 0, ga_counts_valor = 0, ga_counts_instinct = 0\<rparr>, ls))" for ls :: "log list"
    by (simp add: snapshot_inv_def)
  show ?thesis
    unfolding fetchGymSnapshot_def Let_def
    by (auto split: sum.splits intro: snapshot_fold_inv[OF i] simp: d)
qed

lemma snapshot_step_rows:
  "map gym_row_of (ga_mystic (fst (snapshot_step js now gymRow acc))) =
     map gym_row_of (ga_mystic (fst acc)) @ filter (\<lambda>g. g_team_id g = Some 1) [gymRow]"
  "map gym_row_of (ga_valor (fst (snapshot_step js now gymRow acc))) =
     map gym_row_of (ga_valor (fst acc)) @ filter (\<lambda>g. g_team_id g = Some 2) [gymRow]"
  "map gym_row_of (ga_instinct (fst (snapshot_step js now gymRow acc))) =
     map gym_row_of (ga_instinct (fst acc)) @ filter (\<lambda>g. g_team_id g = Some 3) [gymRow]"
  by (simp_all add: snapshot_step_def Let_def gym_team_id_def)

lemma snapshot_fold_rows:
  "map gym_row_of (ga_mystic (fst (fold (snapshot_step js now) rows acc))) =
     map gym_row_of (ga_mystic (fst acc)) @ filter (\<lambda>g. g_team_id g = Some 1) rows"
  "map gym_row_of (ga_valor (fst (fold (snapshot_step js now) rows acc))) =
     map gym_row_of (ga_valor (fst acc)) @ filter (\<lambda>g. g_team_id g = Some 2) rows"
  "map gym_row_of (ga_instinct (fst (fold (snapshot_step js now) rows acc))) =
     map gym_row_of (ga_instinct (fst acc)) @ filter (\<lambda>g. g_team_id g = Some 3) rows"
  by (induction rows arbitrary: acc) (simp_all add: snapshot_step_rows)

text \<open>
  Claim C10.  In every result of \<open>fetchGymSnapshot\<close> the three counts are the lengths of the
  three lists, every gym of \<open>mystic\<close>, \<open>valor\<close> and \<open>instinct\<close> has team 1, 2 and 3
  respectively, and no row of another team (0, NULL or any other value) is in any list.
  When the configuration is valid and the query succeeds, the lists are exactly the rows of
  the query of team 1, 2 and 3, in the order of the query.
\<close>

theorem snapshot_counts_and_teams:
  "ga_counts_mystic (fst (fetchGymSnapshot e js F now db))
     = length (ga_mystic (fst (fetchGymSnapshot e js F now db)))
   \<and> ga_counts_valor (fst (fetchGymSnapshot e js F now db))
     = length (ga_valor (fst (fetchGymSnapshot e js F now db)))
   \<and> ga_counts_instinct (fst (fetchGymSnapshot e js F now db))
     = length (ga_instinct (fst (fetchGymSnapshot e js F now db)))
   \<and> (\<forall>g \<in> set (ga_mystic (fst (fetchGymSnapshot e js F now db))). gym_team_id g = Some 1)
   \<and> (\<forall>g \<in> set (ga_valor (fst (fetchGymSnapshot e js F now db))). gym_team_id g = Some 2)
   \<and> (\<forall>g \<in> set (ga_instinct (fst (fetchGymSnapshot e js F now db))). gym_team_id g = Some 3)
   \<and> (\<forall>row. g_team_id row \<notin> {Some 1, Some 2, Some 3} \<longrightarrow>
         row \<notin> gym_row_of ` (set (ga_mystic (fst (fetchGymSnapshot e js F now db)))
                           \<union> set (ga_valor (fst (fetchGymSnapshot e js F now db)))
                           \<union> set (ga_instinct (fst (fetchGymSnapshot e js F now db)))))
   \<and> (\<forall>geofenceId. snapshot_config e = Inr geofenceId \<and> \<not> F SnapshotQuery \<longrightarrow>
         (let rows = snapshot_query (case GYM_TIME_WINDOW e of None \<Rightarrow> 3600 | Some w \<Rightarrow> w)
                       geofenceId now db
          in map gym_row_of (ga_mystic (fst (fetchGymSnapshot e js F now db)))
               = filter (\<lambda>g. g_team_id g = Some 1) rows
           \<and> map gym_row_of (ga_valor (fst (fetchGymSnapshot e js F now db)))
               = filter (\<lambda>g. g_team_id g = Some 2) rows
           \<and> map gym_row_of (ga_instinct (fst (fetchGymSnapshot e js F now db)))
               = filter (\<lambda>g. g_team_id g = Some 3) rows))"
proof -
  have a: "ga_counts_mystic (fst (fetchGymSnapshot e js F now db))
     = length (ga_mystic (fst (fetchGymSnapshot e js F now db)))
   \<and> ga_counts_valor (fst (fetchGymSnapshot e js F now db))
     = length (ga_valor (fst (fetchGymSnapshot e js F now db)))
   \<and> ga_counts_instinct (fst (fetchGymSnapshot e js F now db))
     = length (ga_instinct (fst (fetchGymSnapshot e js F now db)))
   \<and> (\<forall>g \<in> set (ga_mystic (fst (fetchGymSnapshot e js F now db))). gym_team_id g = Some 1)
   \<and> (\<forall>g \<in> set (ga_valor (fst (fetchGymSnapshot e js F now db))). gym_team_id g = Some 2)
   \<and> (\<forall>g \<in> set (ga_instinct (fst (fetchGymSnapshot e js F now db))). gym_team_id g = Some 3)"
    using snapshot_result_inv[of e js F now db]
    by (simp add: snapshot_inv_def list_all_iff)
  then have b: "\<forall>row. g_team_id row \<notin> {Some 1, Some 2, Some 3} \<longrightarrow>
         row \<notin> gym_row_of ` (set (ga_mystic (fst (fetchGymSnapshot e js F now db)))
                           \<union> set (ga_valor (fst (fetchGymSnapshot e js F now db)))
                           \<union> set (ga_instinct (fst (fetchGymSnapshot e js F now db))))"
    by (auto simp: gym_team_id_def)
  have c: "\<forall>geofenceId. snapshot_config e = Inr geofenceId \<and> \<not> F SnapshotQuery \<longrightarrow>
         (let rows = snapshot_query (case GYM_TIME_WINDOW e of None \<Rightarrow> 3600 | Some w \<Rightarrow> w)
                       geofenceId now db
          in map gym_row_of (ga_mystic (fst (fetchGymSnapshot e js F now db)))
               = filter (\<lambda>g. g_team_id g = Some 1) rows
           \<and> map gym_row_of (ga_valor (fst (fetchGymSnapshot e js F now db)))
               = filter (\<lambda>g. g_team_id g = Some 2) rows
           \<and> map gym_row_of (ga_instinct (fst (fetchGymSnapshot e js F now db)))
               = filter (\<lambda>g. g_team_id g = Some 3) rows)"
    by (simp add: fetchGymSnapshot_def pool_execute_def Let_def snapshot_fold_rows)
  from a b c show ?thesis by blast
qed

theorem snapshot_counts_and_teams_witness:
  "snapshot_config example_env = Inr ''fence_1''
   \<and> map (\<lambda>g. g_id (gym_row_of g))
        (ga_mystic (fst (fetchGymSnapshot example_env example_js no_faults 1700000100 snapshot_store)))
      = [''gym_a'']
   \<and> map (\<lambda>g. g_id (gym_row_of g))
        (ga_valor (fst (fetchGymSnapshot example_env example_js no_faults 1700000100 snapshot_store)))
      = [''gym_b'']
   \<and> map (\<lambda>g. g_id (gym_row_of g))
        (ga_instinct (fst (fetchGymSnapshot example_env example_js no_faults 1700000100 snapshot_store)))
      = [''gym_e'']
   \<and> ga_counts_mystic (fst (fetchGymSnapshot example_env example_js no_faults 1700000100 snapshot_store)) = 1
   \<and> ga_counts_valor (fst (fetchGymSnapshot example_env example_js no_faults 1700000100 snapshot_store)) = 1
   \<and> ga_counts_instinct (fst (fetchGymSnapshot example_env example_js no_faults 1700000100 snapshot_store)) = 1"
proof -
  let ?R = "fst (fetchGymSnapshot example_env example_js no_faults 1700000100 snapshot_store)"
  have w: "(case GYM_TIME_WINDOW example_env of None \<Rightarrow> 3600 | Some w \<Rightarrow> w) = 3600"
    by (simp add: example_env_def)
  have q: "snapshot_query 3600 ''fence_1'' 1700000100 snapshot_store = gym snapshot_store"
    by (simp add: snapshot_query_def snapshot_store_def example_db_def example_gym_def
        in_geofence_def example_fence_def)
  note t = snapshot_counts_and_teams[of example_env example_js no_faults 1700000100 snapshot_store]
  have c: "snapshot_config example_env = Inr ''fence_1'' \<and> \<not> no_faults SnapshotQuery"
    by (simp add: example_snapshot_config)
  note t8 = t[THEN conjunct2, THEN conjunct2, THEN conjunct2, THEN conjunct2, THEN conjunct2,
      THEN conjunct2, THEN conjunct2, THEN spec, THEN mp, OF c, unfolded w Let_def q]
  from t8
  have rows: "map gym_row_of (ga_mystic ?R) = filter (\<lambda>g. g_team_id g = Some 1) (gym snapshot_store)"
    "map gym_row_of (ga_valor ?R) = filter (\<lambda>g. g_team_id g = Some 2) (gym snapshot_store)"
    "map gym_row_of (ga_instinct ?R) = filter (\<lambda>g. g_team_id g = Some 3) (gym snapshot_store)"
    by simp_all
  have ids: "map (\<lambda>g. g_id (gym_row_of g)) xs = map g_id (map gym_row_of xs)" for xs :: "Gym list"
    by simp
  have m: "map (\<lambda>g. g_id (gym_row_of g)) (ga_mystic ?R) = [''gym_a'']"
    "map (\<lambda>g. g_id (gym_row_of g)) (ga_valor ?R) = [''gym_b'']"
    "map (\<lambda>g. g_id (gym_row_of g)) (ga_instinct ?R) = [''gym_e'']"
    unfolding ids rows by (simp_all add: snapshot_store_def example_db_def example_gym_def)
  have len: "length (ga_mystic ?R) = 1" "length (ga_valor ?R) = 1" "length (ga_instinct ?R) = 1"
    using m by (metis length_map length_Cons list.size(3) One_nat_def)+
  have "ga_counts_mystic ?R = length (ga_mystic ?R)"
    "ga_counts_valor ?R = length (ga_valor ?R)" "ga_counts_instinct ?R = length (ga_instinct ?R)"
    using t[THEN conjunct1] t[THEN conjunct2, THEN conjunct1]
      t[THEN conjunct2, THEN conjunct2, THEN conjunct1] by simp_all
  with len m example_snapshot_config show ?thesis by simp
qed

text \<open>
  A row of the defender query whose payload does not parse, or parses to something that
  is not an array, adds one warning and leaves the aggregation of the other rows as it
  is.  In the snapshot, a payload that does not parse gives the gym an empty list and a
  warning; a payload that parses is taken as it is, array or not.
\<close>

lemma stats_rows_step:
  "(\<exists>w. \<forall>l. stats_rows js (row # rows) ts l = stats_rows js rows ts (l @ [w]))
   \<or> (\<exists>ts'. \<forall>l. stats_rows js (row # rows) ts l = stats_rows js rows ts' l)
   \<or> (\<exists>err. \<forall>l. stats_rows js (row # rows) ts l = (Inl err, l))"
proof -
  have warn: ?thesis if "\<forall>l. stats_rows js (row # rows) ts l = stats_rows js rows ts (l @ [w])" for w
    using that by blast
  have agg: ?thesis if "\<forall>l. stats_rows js (row # rows) ts l = stats_rows js rows ts' l" for ts'
    using that by blast
  have throw: ?thesis if "\<forall>l. stats_rows js (row # rows) ts l = (Inl err, l)" for err
    using that by blast
  show ?thesis
  proof (cases "snd row")
    case None
    then show ?thesis by (intro agg[of ts]) simp
  next
    case (Some s)
    note payload = Some
    show ?thesis
    proof (cases "s = []")
      case True
      with payload show ?thesis by (intro agg[of ts]) simp
    next
      case False
      note nonempty = False
      show ?thesis
      proof (cases "JSON_parse js s")
        case None
        with payload nonempty show ?thesis by (intro warn[of StatsParseWarning]) simp
      next
        case (Some v)
        note parsed = Some
        show ?thesis
        proof (cases v)
          case (JArr defenders)
          show ?thesis
          proof (cases "fst row")
            case None
            with payload nonempty parsed JArr show ?thesis by (intro agg[of ts]) simp
          next
            case (Some team_id)
            note tid = Some
            show ?thesis
            proof (cases "ts team_id")
              case None
              with payload nonempty parsed JArr tid show ?thesis by (intro agg[of ts]) simp
            next
              case (Some team)
              note tm = Some
              show ?thesis
              proof (cases "defender_loop js defenders team")
                case (Inl err)
                with payload nonempty parsed JArr tid tm show ?thesis
                  by (intro throw[of err]) simp
              next
                case (Inr team')
                with payload nonempty parsed JArr tid tm show ?thesis
                  by (intro agg[of "ts(team_id \<mapsto> team')"]) simp
              qed
            qed
          qed
        qed (use payload nonempty parsed in \<open>(intro warn[of StatsShapeWarning], simp)+\<close>)
      qed
    qed
  qed
qed

lemma stats_rows_logs:
  "stats_rows js rows ts logs =
     (fst (stats_rows js rows ts []), logs @ snd (stats_rows js rows ts []))"
proof (induction rows arbitrary: ts logs)
  case Nil
  show ?case by simp
next
  case (Cons row rows)
  have IH: "stats_rows js rows ts' l =
     (fst (stats_rows js rows ts' []), l @ snd (stats_rows js rows ts' []))" for ts' l
    by (rule Cons.IH)
  from stats_rows_step[of js row rows ts]
  consider (warn) w where "\<forall>l. stats_rows js (row # rows) ts l = stats_rows js rows ts (l @ [w])"
    | (agg) ts' where "\<forall>l. stats_rows js (row # rows) ts l = stats_rows js rows ts' l"
    | (throw) err where "\<forall>l. stats_rows js (row # rows) ts l = (Inl err, l)"
    by blast
  then show ?case
  proof cases
    case warn
    have "stats_rows js (row # rows) ts logs = stats_rows js rows ts (logs @ [w])"
      using warn by blast
    also have "\<dots> = (fst (stats_rows js rows ts []), (logs @ [w]) @ snd (stats_rows js rows ts []))"
      by (rule IH)
    finally have 1: "stats_rows js (row # rows) ts logs =
        (fst (stats_rows js rows ts []), logs @ [w] @ snd (stats_rows js rows ts []))" by simp
    have "stats_rows js (row # rows) ts [] = stats_rows js rows ts ([] @ [w])"
      using warn by blast
    also have "\<dots> = (fst (stats_rows js rows ts []), ([] @ [w]) @ snd (stats_rows js rows ts []))"
      by (rule IH)
    finally have 2: "stats_rows js (row # rows) ts [] =
        (fst (stats_rows js rows ts []), [w] @ snd (stats_rows js rows ts []))" by simp
    show ?thesis unfolding 1 2 by simp
  next
    case agg
    have 1: "stats_rows js (row # rows) ts logs = stats_rows js rows ts' logs"
      and 2: "stats_rows js (row # rows) ts [] = stats_rows js rows ts' []"
      using agg by blast+
    show ?thesis unfolding 1 2 by (rule IH)
  next
    case throw
    have 1: "stats_rows js (row # rows) ts logs = (Inl err, logs)"
      and 2: "stats_rows js (row # rows) ts [] = (Inl err, [])"
      using throw by blast+
    show ?thesis unfolding 1 2 by simp
  qed
qed

lemma stats_rows_malformed:
  assumes "s \<noteq> []" "JSON_parse js s = None \<or> (\<exists>v. JSON_parse js s = Some v \<and> \<not> is_array v)"
  shows "fst (stats_rows js ((team, Some s) # rows) ts logs) = fst (stats_rows js rows ts logs)
       \<and> (\<exists>w \<in> {StatsParseWarning, StatsShapeWarning}.
            snd (stats_rows js ((team, Some s) # rows) ts logs)
              = logs @ [w] @ snd (stats_rows js rows ts []))"
proof -
  have "\<exists>w \<in> {StatsParseWarning, StatsShapeWarning}.
          stats_rows js ((team, Some s) # rows) ts logs = stats_rows js rows ts (logs @ [w])"
  proof (cases "JSON_parse js s")
    case None
    with assms(1) show ?thesis by simp
  next
    case (Some v)
    with assms(2) have "\<not> is_array v" by simp
    with Some assms(1) show ?thesis by (cases v) (simp_all add: is_array_def)
  qed
  then obtain w where w: "w \<in> {StatsParseWarning, StatsShapeWarning}"
    and "stats_rows js ((team, Some s) # rows) ts logs = stats_rows js rows ts (logs @ [w])"
    by blast
  then have "stats_rows js ((team, Some s) # rows) ts logs =
      (fst (stats_rows js rows ts []), (logs @ [w]) @ snd (stats_rows js rows ts []))"
    using stats_rows_logs[of js rows ts "logs @ [w]"] by simp
  moreover have "fst (stats_rows js rows ts logs) = fst (stats_rows js rows ts [])"
    using stats_rows_logs[of js rows ts logs] by (metis fst_conv)
  ultimately show ?thesis using w by auto
qed

lemma parse_defenders_malformed:
  assumes "g_defenders gymRow = Some s" "s \<noteq> []" "JSON_parse js s = None"
  shows "parse_defenders js gymRow = (JArr [], [SnapshotParseWarning (g_id gymRow)])"
  using assms by (simp add: parse_defenders_def)

lemma parse_defenders_non_array:
  assumes "g_defenders gymRow = Some s" "s \<noteq> []" "JSON_parse js s = Some v"
  shows "parse_defenders js gymRow = (v, [])"
  using assms by (simp add: parse_defenders_def)

text \<open>
  Claim C9 at a payload that is valid JSON but not an array, the object \<open>{}\<close>:
  \<open>fetchGymSnapshot\<close> logs nothing and returns the gym with the parsed object as its
  \<open>defenders\<close>, where \<open>fetchDefenderStats\<close>, on the same store, tests \<open>Array.isArray\<close>, logs
  the warning and skips the row.
\<close>

theorem snapshot_non_array_payload:
  "fetchGymSnapshot example_env example_js no_faults 1700000100 (payload_store ''{}'') =
     (\<lparr>ga_mystic =
         [\<lparr>gym_row_of = example_gym ''gym_a'' (Some 1) (Some ''{}''), gym_defenders = JObj [],
           gym_slots = Some 2, gym_last_updated = MinutesAgo 1\<rparr>],
       ga_valor =
         [\<lparr>gym_row_of = example_gym ''gym_b'' (Some 2) (Some ''[]''), gym_defenders = JArr [],
           gym_slots = Some 2, gym_last_updated = MinutesAgo 1\<rparr>],
       ga_instinct = [],
       ga_counts_mystic = 1, ga_counts_valor = 1, ga_counts_instinct = 0\<rparr>, [])
   \<and> snd (fetchDefenderStats example_env example_js no_faults 1690000000 1700000100
             (payload_store ''{}'')) = [StatsShapeWarning]"
proof -
  have q: "snapshot_query 3600 ''fence_1'' 1700000100 (payload_store ''{}'') =
             [example_gym ''gym_a'' (Some 1) (Some ''{}''), example_gym ''gym_b'' (Some 2) (Some ''[]'')]"
    by (simp add: snapshot_query_def payload_store_def example_db_def example_gym_def
        in_geofence_def example_fence_def)
  have s1: "fetchGymSnapshot example_env example_js no_faults 1700000100 (payload_store ''{}'') =
     (\<lparr>ga_mystic =
         [\<lparr>gym_row_of = example_gym ''gym_a'' (Some 1) (Some ''{}''), gym_defenders = JObj [],
           gym_slots = Some 2, gym_last_updated = MinutesAgo 1\<rparr>],
       ga_valor =
         [\<lparr>gym_row_of = example_gym ''gym_b'' (Some 2) (Some ''[]''), gym_defenders = JArr [],
           gym_slots = Some 2, gym_last_updated = MinutesAgo 1\<rparr>],
       ga_instinct = [],
       ga_counts_mystic = 1, ga_counts_valor = 1, ga_counts_instinct = 0\<rparr>, [])"
    unfolding fetchGymSnapshot_def example_snapshot_config
    by (simp add: pool_execute_def q example_env_def)
       (simp add: snapshot_step_def parse_defenders_def example_gym_def example_js_def
          gym_team_id_def getTimeSinceUpdate_def Let_def)
  have d: "defender_query ''fence_1'' (payload_store ''{}'') = [(Some 1, Some ''{}''), (Some 2, Some ''[]'')]"
    by (simp add: defender_query_def payload_store_def example_db_def example_gym_def
        in_geofence_def example_fence_def)
  have s2: "snd (fetchDefenderStats example_env example_js no_faults 1690000000 1700000100
             (payload_store ''{}'')) = [StatsShapeWarning]"
    unfolding fetchDefenderStats_def example_stats_config
    by (simp add: pool_execute_def d example_js_def initial_teamStats_def Let_def)
  from s1 s2 show ?thesis by simp
qed

end
